theory Spec2Isabelle
  imports Complex_Main "HOL-Library.Multiset" "HOL-Library.Monad_Syntax"
begin

section \<open>Tensors\<close>

text \<open>
  Tensor entries are real numbers: rounding is not modelled. A rank-1 tensor (one scalar
  per batch element, or one feature row) is a list, a rank-2 tensor of shape (B, D) is a
  list of B rows. A computation returns \<open>None\<close> where keras gives no real-valued result:
  it raises (shapes that do not broadcast, a failed unpacking) or the value is NaN (the
  mean of an empty tensor).
\<close>

type_synonym vec = "real list"
type_synonym tensor = "real list list"

definition broadcast :: "('a \<Rightarrow> 'b \<Rightarrow> 'c option) \<Rightarrow> 'a list \<Rightarrow> 'b list \<Rightarrow> 'c list option" where
  \<comment> \<open>Elementwise operation along one axis, numpy broadcasting: equal sizes, or one size is 1.\<close>
  "broadcast f a b =
     (if length a = length b then those (map2 f a b)
      else if length a = 1 then those (map (f (hd a)) b)
      else if length b = 1 then those (map (\<lambda>x. f x (hd b)) a)
      else None)"

definition vec_op :: "(real \<Rightarrow> real \<Rightarrow> real) \<Rightarrow> vec \<Rightarrow> vec \<Rightarrow> vec option" where
  "vec_op f = broadcast (\<lambda>x y. Some (f x y))"

definition tensor_op :: "(real \<Rightarrow> real \<Rightarrow> real) \<Rightarrow> tensor \<Rightarrow> tensor \<Rightarrow> tensor option" where
  "tensor_op f = broadcast (vec_op f)"

definition mean :: "real list \<Rightarrow> real option" where
  \<comment> \<open>keras.ops.mean; the mean of no element is NaN.\<close>
  "mean xs = (if xs = [] then None else Some (sum_list xs / real (length xs)))"

definition concatenate :: "tensor list \<Rightarrow> tensor option" where
  \<comment> \<open>keras.ops.concatenate(..., axis=-1): the parts need the same number of rows.\<close>
  "concatenate ts =
     (case ts of
        [] \<Rightarrow> None
      | t # rest \<Rightarrow>
          if list_all (\<lambda>u. length u = length t) rest
          then Some (map (\<lambda>i. concat (map (\<lambda>u. u ! i) ts)) [0..<length t])
          else None)"

section \<open>The flow matching network\<close>

subsection \<open>Collaborators\<close>

text \<open>
  A keras layer or model on rank-2 tensors: the subnet and the output projector.
\<close>

type_synonym network = "tensor \<Rightarrow> tensor option"

text \<open>
  What an integrator call returns: the final state, or with \<open>density=True\<close> the pair of
  the final state and the accumulated trace (one scalar per batch element).
\<close>

datatype outcome = Sample tensor | SampleDensity tensor vec

text \<open>
  An integrator object, as \<open>flow_matching.py\<close> uses it: \<open>integrator(subnet, projector, x,
  conditions=, steps=, density=, inverse=)\<close> and \<open>integrator.velocity(subnet, projector, x,
  t, conditions)\<close>.
\<close>

record integrator =
  integrate :: "network \<Rightarrow> network \<Rightarrow> tensor \<Rightarrow> tensor option \<Rightarrow> int \<Rightarrow> bool \<Rightarrow> bool \<Rightarrow> outcome option"
  velocity :: "network \<Rightarrow> network \<Rightarrow> tensor \<Rightarrow> tensor \<Rightarrow> tensor option \<Rightarrow> tensor option"

text \<open>The base distribution, an opaque interface; only \<open>log_prob\<close> is called here.\<close>

record distribution =
  log_prob :: "tensor \<Rightarrow> vec"

type_synonym metrics = "string \<rightharpoonup> real"

record ot_kwargs =
  ot_method :: string
  ot_cost :: string
  ot_regularization :: real
  ot_max_steps :: int
  ot_tolerance :: real

subsection \<open>FlowMatching\<close>

text \<open>
  The attributes \<open>__init__\<close> sets. There is no integrator attribute: the parameter is
  commented out in the signature and so is the \<open>match integrator\<close> block.
\<close>

record flow_matching =
  use_optimal_transport :: bool
  optimal_transport_kwargs :: ot_kwargs
  seed_generator :: nat
  subnet :: network
  output_projector :: network
  base_distribution :: distribution

text \<open>
  The names \<open>flow_matching.py\<close> imports and calls but does not define: the three
  integrator classes (constructed without arguments), \<open>keras.random.normal\<close> and
  \<open>keras.random.uniform\<close> (shape and seed), \<open>bayesflow.utils.optimal_transport\<close> (it
  returns the re-paired \<open>x1\<close>, \<open>x0\<close> and conditions, and draws from the seed generator),
  \<open>bayesflow.utils.expand_right_as\<close> and \<open>InferenceNetwork.compute_metrics\<close>.
  The state of a \<open>keras.random.SeedGenerator\<close> is a counter: a draw uses its value and
  advances it by one.
\<close>

record env =
  EulerIntegrator :: integrator
  RK2Integrator :: integrator
  RK4Integrator :: integrator
  random_normal :: "nat \<times> nat \<Rightarrow> nat \<Rightarrow> tensor"
  random_uniform :: "nat \<Rightarrow> nat \<Rightarrow> vec"
  optimal_transport ::
    "tensor \<Rightarrow> tensor \<Rightarrow> tensor option \<Rightarrow> nat \<Rightarrow> ot_kwargs \<Rightarrow> (tensor \<times> tensor \<times> tensor option) \<times> nat"
  expand_right_as :: "vec \<Rightarrow> tensor \<Rightarrow> tensor"
  base_compute_metrics :: "flow_matching \<Rightarrow> tensor \<Rightarrow> tensor option \<Rightarrow> string \<Rightarrow> metrics"

text \<open>The keywords \<open>call\<close> forwards in \<open>**kwargs\<close>; \<open>None\<close> is a keyword not given.\<close>

record call_kwargs =
  kw_density :: "bool option"
  kw_steps :: "int option"

definition default_ot_kwargs :: ot_kwargs where
  "default_ot_kwargs =
     \<lparr>ot_method = ''sinkhorn'', ot_cost = ''euclidean'', ot_regularization = 1 / 10,
      ot_max_steps = 1000, ot_tolerance = 1 / 10000\<rparr>"

definition get_steps :: "call_kwargs \<Rightarrow> int" where
  \<comment> \<open>\<open>kwargs.get("steps", 100)\<close>\<close>
  "get_steps kw = (case kw_steps kw of None \<Rightarrow> 100 | Some n \<Rightarrow> n)"

definition get_density :: "call_kwargs \<Rightarrow> bool" where
  \<comment> \<open>the parameter \<open>density: bool = False\<close>\<close>
  "get_density kw = (case kw_density kw of None \<Rightarrow> False | Some d \<Rightarrow> d)"

definition fm_forward :: "env \<Rightarrow> flow_matching \<Rightarrow> tensor \<Rightarrow> tensor option \<Rightarrow> call_kwargs \<Rightarrow> outcome option" where
  \<comment> \<open>\<open>FlowMatching._forward\<close>; a result that is not a pair does not unpack into
      \<open>z, trace\<close>.\<close>
  "fm_forward e fm x conditions kw =
     (let steps = get_steps kw;
          integrator = RK2Integrator e
      in if get_density kw then
           (case integrate integrator (subnet fm) (output_projector fm) x conditions steps True False of
              Some (SampleDensity z trace) \<Rightarrow>
                (let lp = log_prob (base_distribution fm) z
                 in map_option (SampleDensity z) (vec_op (+) lp trace))
            | _ \<Rightarrow> None)
         else integrate integrator (subnet fm) (output_projector fm) x conditions steps False False)"

definition fm_inverse :: "env \<Rightarrow> flow_matching \<Rightarrow> tensor \<Rightarrow> tensor option \<Rightarrow> call_kwargs \<Rightarrow> outcome option" where
  \<comment> \<open>\<open>FlowMatching._inverse\<close>; the log-probability is taken at the argument \<open>z\<close>.\<close>
  "fm_inverse e fm z conditions kw =
     (let steps = get_steps kw;
          integrator = RK2Integrator e
      in if get_density kw then
           (case integrate integrator (subnet fm) (output_projector fm) z conditions steps True True of
              Some (SampleDensity x trace) \<Rightarrow>
                (let lp = log_prob (base_distribution fm) z
                 in map_option (SampleDensity x) (vec_op (-) lp trace))
            | _ \<Rightarrow> None)
         else integrate integrator (subnet fm) (output_projector fm) z conditions steps False True)"

definition fm_call :: "env \<Rightarrow> flow_matching \<Rightarrow> tensor \<Rightarrow> tensor option \<Rightarrow> bool option \<Rightarrow> call_kwargs \<Rightarrow> outcome option" where
  \<comment> \<open>\<open>FlowMatching.call\<close>; \<open>inverse\<close> is \<open>None\<close> when the caller leaves it to its default.\<close>
  "fm_call e fm xz conditions inverse_arg kw =
     (if (case inverse_arg of None \<Rightarrow> False | Some b \<Rightarrow> b)
      then fm_inverse e fm xz conditions kw
      else fm_forward e fm xz conditions kw)"

text \<open>The argument of \<open>compute_metrics\<close>: a batch, or a pre-configured sequence.\<close>

datatype cm_input = Batch tensor | Sequence "tensor list"

definition shape :: "tensor \<Rightarrow> nat \<times> nat" where
  \<comment> \<open>\<open>keras.ops.shape\<close> of a rank-2 tensor; a list of no rows has no width to report\<close>
  "shape x = (length x, (case x of [] \<Rightarrow> 0 | r # _ \<Rightarrow> length r))"

definition mean_squared_error :: "tensor \<Rightarrow> tensor \<Rightarrow> vec option" where
  \<comment> \<open>\<open>keras.losses.mean_squared_error\<close>: the mean of the squared differences over the last axis\<close>
  "mean_squared_error y_true y_pred =
     do { d \<leftarrow> tensor_op (-) y_true y_pred;
          those (map (\<lambda>row. mean (map (\<lambda>v. v * v) row)) d) }"

text \<open>
  The values \<open>compute_metrics\<close> holds after its \<open>if isinstance(x, Sequence)\<close> statement
  (lines 125 to 142), with the conditions and the state of the seed generator at that point.
\<close>

record training_pair =
  tp_x0 :: tensor
  tp_x1 :: tensor
  tp_t :: tensor
  tp_x :: tensor
  tp_target_velocity :: tensor
  tp_conditions :: "tensor option"
  tp_seed :: nat

definition configure :: "env \<Rightarrow> flow_matching \<Rightarrow> cm_input \<Rightarrow> tensor option \<Rightarrow> training_pair option" where
  "configure e fm inp conditions =
     (case inp of
        Sequence xs \<Rightarrow>
          (case xs of
             [x0, x1, t, x, target_velocity] \<Rightarrow>
               Some \<lparr>tp_x0 = x0, tp_x1 = x1, tp_t = t, tp_x = x, tp_target_velocity = target_velocity,
                     tp_conditions = conditions, tp_seed = seed_generator fm\<rparr>
           | _ \<Rightarrow> None)
      | Batch x1 \<Rightarrow>
          (let s0 = seed_generator fm;
               x0 = random_normal e (shape x1) s0;
               s1 = s0 + 1;
               ((x1, x0, conditions), s2) =
                  (if use_optimal_transport fm
                   then optimal_transport e x1 x0 conditions s1 (optimal_transport_kwargs fm)
                   else ((x1, x0, conditions), s1));
               t = random_uniform e (fst (shape x0)) s2;
               s3 = s2 + 1;
               t = expand_right_as e t x0
           in do { a \<leftarrow> tensor_op (*) t x1;
                   b \<leftarrow> tensor_op (*) (map (map (\<lambda>v. 1 - v)) t) x0;
                   x \<leftarrow> tensor_op (+) a b;
                   target_velocity \<leftarrow> tensor_op (-) x1 x0;
                   Some \<lparr>tp_x0 = x0, tp_x1 = x1, tp_t = t, tp_x = x,
                         tp_target_velocity = target_velocity,
                         tp_conditions = conditions, tp_seed = s3\<rparr> }))"

definition fm_compute_metrics ::
  "env \<Rightarrow> flow_matching \<Rightarrow> cm_input \<Rightarrow> tensor option \<Rightarrow> string \<Rightarrow> (metrics \<times> flow_matching) option" where
  \<comment> \<open>\<open>FlowMatching.compute_metrics\<close>; returned with the object, whose seed generator has advanced\<close>
  "fm_compute_metrics e fm inp conditions stage =
     do { p \<leftarrow> configure e fm inp conditions;
          let base_metrics = base_compute_metrics e fm (tp_x1 p) (tp_conditions p) stage;
          let integrator = RK2Integrator e;
          predicted_velocity \<leftarrow>
            velocity integrator (subnet fm) (output_projector fm) (tp_x p) (tp_t p) (tp_conditions p);
          loss \<leftarrow> mean_squared_error (tp_target_velocity p) predicted_velocity;
          loss \<leftarrow> mean loss;
          Some (base_metrics ++ [''loss'' \<mapsto> loss], fm\<lparr>seed_generator := tp_seed p\<rparr>) }"

subsection \<open>The integrators\<close>

text \<open>
  Modelled from the spec: \<open>integrators.py\<close> (the classes \<open>EulerIntegrator\<close>,
  \<open>RK2Integrator\<close>, \<open>RK4Integrator\<close> and their \<open>velocity\<close> helper) is not among the
  sources. The helper concatenates the state, the time and the conditions (if present),
  feeds them through the function approximator and projects the result. An integration
  runs a fixed number of steps of size \<open>h = 1 / steps\<close> from \<open>t = 0\<close>, with the sign of
  \<open>h\<close> flipped and the start at \<open>t = 1\<close> for the inverse direction; in density mode each
  step adds \<open>h\<close> times the divergence of the velocity with respect to the state to the
  trace accumulator, which is positive for the forward and negative for the inverse
  direction. The divergence operator is the automatic differentiation of the host
  framework and is a parameter here.
\<close>

type_synonym autodiff = "(tensor \<Rightarrow> tensor option) \<Rightarrow> tensor \<Rightarrow> vec option"

definition velocity_spec :: "network \<Rightarrow> network \<Rightarrow> tensor \<Rightarrow> tensor \<Rightarrow> tensor option \<Rightarrow> tensor option" where
  "velocity_spec net projector x t conditions =
     do { inp \<leftarrow> concatenate ([x, t] @ (case conditions of None \<Rightarrow> [] | Some c \<Rightarrow> [c]));
          hidden \<leftarrow> net inp;
          projector hidden }"

definition axpy :: "real \<Rightarrow> tensor \<Rightarrow> tensor \<Rightarrow> tensor option" where
  \<comment> \<open>\<open>x + a * k\<close>\<close>
  "axpy a k x = tensor_op (\<lambda>xv kv. xv + a * kv) x k"

definition euler_step :: "(tensor \<Rightarrow> real \<Rightarrow> tensor option) \<Rightarrow> real \<Rightarrow> tensor \<Rightarrow> real \<Rightarrow> tensor option" where
  "euler_step v h x t = do { k1 \<leftarrow> v x t; axpy h k1 x }"

definition rk2_step :: "(tensor \<Rightarrow> real \<Rightarrow> tensor option) \<Rightarrow> real \<Rightarrow> tensor \<Rightarrow> real \<Rightarrow> tensor option" where
  "rk2_step v h x t =
     do { k1 \<leftarrow> v x t;
          xm \<leftarrow> axpy (h / 2) k1 x;
          k2 \<leftarrow> v xm (t + h / 2);
          axpy h k2 x }"

definition rk4_step :: "(tensor \<Rightarrow> real \<Rightarrow> tensor option) \<Rightarrow> real \<Rightarrow> tensor \<Rightarrow> real \<Rightarrow> tensor option" where
  "rk4_step v h x t =
     do { k1 \<leftarrow> v x t;
          x2 \<leftarrow> axpy (h / 2) k1 x;
          k2 \<leftarrow> v x2 (t + h / 2);
          x3 \<leftarrow> axpy (h / 2) k2 x;
          k3 \<leftarrow> v x3 (t + h / 2);
          x4 \<leftarrow> axpy h k3 x;
          k4 \<leftarrow> v x4 (t + h);
          s1 \<leftarrow> tensor_op (\<lambda>a b. a + 2 * b) k1 k2;
          s2 \<leftarrow> tensor_op (\<lambda>a b. 2 * a + b) k3 k4;
          s \<leftarrow> tensor_op (+) s1 s2;
          axpy (h / 6) s x }"

fun integrate_steps ::
  "((tensor \<Rightarrow> real \<Rightarrow> tensor option) \<Rightarrow> real \<Rightarrow> tensor \<Rightarrow> real \<Rightarrow> tensor option) \<Rightarrow> autodiff \<Rightarrow>
   (tensor \<Rightarrow> real \<Rightarrow> tensor option) \<Rightarrow> bool \<Rightarrow> real \<Rightarrow> nat \<Rightarrow> tensor \<Rightarrow> real \<Rightarrow> vec \<Rightarrow> (tensor \<times> vec) option" where
  "integrate_steps step D v density h 0 x t trace = Some (x, trace)"
| "integrate_steps step D v density h (Suc n) x t trace =
     do { trace' \<leftarrow> (if density
                      then do { d \<leftarrow> D (\<lambda>y. v y t) x; vec_op (\<lambda>a dv. a + h * dv) trace d }
                      else Some trace);
          x' \<leftarrow> step v h x t;
          integrate_steps step D v density h n x' (t + h) trace' }"

definition integrator_spec ::
  "((tensor \<Rightarrow> real \<Rightarrow> tensor option) \<Rightarrow> real \<Rightarrow> tensor \<Rightarrow> real \<Rightarrow> tensor option) \<Rightarrow> autodiff \<Rightarrow> integrator" where
  "integrator_spec step D =
     \<lparr>integrate = (\<lambda>net projector x conditions steps density inverse_arg.
        if steps < 1 then None
        else
          (let h = (if inverse_arg then - 1 else 1) / real_of_int steps;
               t0 = (if inverse_arg then 1 else 0);
               v = (\<lambda>y t. velocity_spec net projector y (map (\<lambda>_. [t]) y) conditions)
           in map_option (\<lambda>(y, trace). if density then SampleDensity y trace else Sample y)
                (integrate_steps step D v density h (nat steps) x t0 (map (\<lambda>_. 0) x)))),
      velocity = velocity_spec\<rparr>"






subsection \<open>A concrete network\<close>

text \<open>
  A layer whose weights are all zero, with \<open>n\<close> output units: such a subnet and projector
  give the velocity field that is zero everywhere. The divergence of a field that does not
  depend on the state is zero. The standard normal distribution has the log-density
  \<open>- |z|\<^sup>2 / 2 - D / 2 * ln (2 * pi)\<close> on rows of width \<open>D\<close>.
\<close>

definition zero_layer :: "nat \<Rightarrow> network" where
  "zero_layer n x = Some (map (\<lambda>_. replicate n 0) x)"

definition constant_field_divergence :: autodiff where
  "constant_field_divergence f x = Some (map (\<lambda>_. 0) x)"

definition standard_normal :: distribution where
  "standard_normal =
     \<lparr>log_prob = map (\<lambda>row. - (sum_list (map (\<lambda>v. v * v) row)) / 2
                                - real (length row) / 2 * ln (2 * pi))\<rparr>"

definition still_network :: flow_matching where
  "still_network =
     \<lparr>use_optimal_transport = False, optimal_transport_kwargs = default_ot_kwargs,
      seed_generator = 0, subnet = zero_layer 2, output_projector = zero_layer 1,
      base_distribution = standard_normal\<rparr>"

text \<open>
  An environment for concrete runs: the integrators of the spec, fixed draws in place of the
  random number generator, a coupling that reverses the order of \<open>x1\<close>, and no metrics of
  the base class.
\<close>

definition spec_env :: env where
  "spec_env =
     \<lparr>EulerIntegrator = integrator_spec euler_step constant_field_divergence,
      RK2Integrator = integrator_spec rk2_step constant_field_divergence,
      RK4Integrator = integrator_spec rk4_step constant_field_divergence,
      random_normal = (\<lambda>(b, d) seed. replicate b (replicate d ((real seed + 1) / 4))),
      random_uniform = (\<lambda>b seed. replicate b (1 / (real seed + 2))),
      optimal_transport = (\<lambda>x1 x0 c seed kw. ((rev x1, x0, c), seed + 1)),
      expand_right_as = (\<lambda>t x. map (\<lambda>v. [v]) t),
      base_compute_metrics = (\<lambda>fm x1 c stage. Map.empty)\<rparr>"

definition density_kwargs :: call_kwargs where
  \<comment> \<open>\<open>density=True\<close> and no \<open>steps\<close> keyword\<close>
  "density_kwargs = \<lparr>kw_density = Some True, kw_steps = None\<rparr>"

definition no_kwargs :: call_kwargs where
  "no_kwargs = \<lparr>kw_density = None, kw_steps = None\<rparr>"

definition ot_network :: flow_matching where
  \<comment> \<open>the same network with \<open>use_optimal_transport=True\<close>\<close>
  "ot_network = still_network\<lparr>use_optimal_transport := True\<rparr>"

subsection \<open>A network that grows\<close>

text \<open>
  A subnet that returns the first column of its input (the state, for states of width one)
  and a projector that is the identity: the velocity is the state itself, \<open>v(y, t) = y\<close>,
  whose divergence is 1 everywhere. One Euler step multiplies the state by \<open>1 + h\<close>, one RK2
  step by \<open>1 + h + h\<^sup>2 / 2\<close>, so the three integrators give different results. An integrator
  that raises at every call stands for a class that must not be used.
\<close>

definition first_column :: network where
  "first_column inp = Some (map (take 1) inp)"

definition identity_layer :: network where
  "identity_layer hidden = Some hidden"

definition unit_divergence :: autodiff where
  "unit_divergence f x = Some (map (\<lambda>_. 1) x)"

definition growth_network :: flow_matching where
  "growth_network =
     \<lparr>use_optimal_transport = False, optimal_transport_kwargs = default_ot_kwargs,
      seed_generator = 0, subnet = first_column, output_projector = identity_layer,
      base_distribution = standard_normal\<rparr>"

definition growth_env :: env where
  "growth_env =
     spec_env\<lparr>EulerIntegrator := integrator_spec euler_step unit_divergence,
              RK2Integrator := integrator_spec rk2_step unit_divergence,
              RK4Integrator := integrator_spec rk4_step unit_divergence\<rparr>"

definition failing_integrator :: integrator where
  "failing_integrator =
     \<lparr>integrate = (\<lambda>net projector x conditions steps density inverse_arg. None),
      velocity = (\<lambda>net projector x t conditions. None)\<rparr>"

definition steps_kwargs :: "int \<Rightarrow> call_kwargs" where
  \<comment> \<open>\<open>steps=n\<close> and no \<open>density\<close> keyword\<close>
  "steps_kwargs n = \<lparr>kw_density = None, kw_steps = Some n\<rparr>"


section \<open>The equivariant module\<close>

subsection \<open>Layers\<close>

text \<open>
  A built \<open>keras.layers.Dense\<close>: a kernel of shape (input width, units), one row per input
  feature, a bias of length units, and an activation. It acts on the last axis, row by row,
  and raises on a row whose width is not the one it was built for.
\<close>

record dense =
  kernel :: "real list list"
  bias :: "real list"
  activation :: "real \<Rightarrow> real"

definition dense_row :: "dense \<Rightarrow> vec \<Rightarrow> vec option" where
  "dense_row l x =
     (if length x = length (kernel l)
      then Some (map (\<lambda>j. activation l (sum_list (map2 (\<lambda>xi krow. xi * krow ! j) x (kernel l)) + bias l ! j))
                     [0..<length (bias l)])
      else None)"

definition dense_call :: "dense \<Rightarrow> tensor \<Rightarrow> tensor option" where
  "dense_call l x = those (map (dense_row l) x)"

fun sequential :: "dense list \<Rightarrow> tensor \<Rightarrow> tensor option" where
  \<comment> \<open>\<open>keras.Sequential\<close> of dense layers (a layer wrapped in spectral normalisation is a
      dense layer with the normalised kernel)\<close>
  "sequential [] x = Some x"
| "sequential (l # ls) x = dense_call l x \<bind> sequential ls"

text \<open>
  \<open>keras.layers.LayerNormalization\<close> over the last axis: each row is centred and scaled by
  its own mean and variance, then scaled by \<open>gamma\<close> and shifted by \<open>beta\<close>.
\<close>

record layer_norm =
  gamma :: "real list"
  beta :: "real list"
  epsilon :: real

definition layer_norm_row :: "layer_norm \<Rightarrow> vec \<Rightarrow> vec option" where
  "layer_norm_row l x =
     (if length x = length (gamma l) \<and> length x = length (beta l)
      then (let n = real (length x);
                mu = sum_list x / n;
                var = sum_list (map (\<lambda>v. (v - mu) * (v - mu)) x) / n
            in Some (map (\<lambda>j. (x ! j - mu) / sqrt (var + epsilon l) * gamma l ! j + beta l ! j)
                         [0..<length x]))
      else None)"

definition layer_norm_call :: "layer_norm \<Rightarrow> tensor \<Rightarrow> tensor option" where
  "layer_norm_call l x = those (map (layer_norm_row l) x)"

subsection \<open>EquivariantModule\<close>

text \<open>
  The attributes \<open>__init__\<close> sets. The invariant module (\<open>invariant_module.py\<close> is not among
  the sources) is the function it computes: from the \<open>training\<close> flag and one set, a tensor
  of shape (N, width), to one summary row.
\<close>

record equivariant_module =
  invariant_module :: "bool \<Rightarrow> tensor \<Rightarrow> vec option"
  input_projection :: dense
  equivariant_fc :: "dense list"
  ln_layer :: "layer_norm option"

definition call_set :: "equivariant_module \<Rightarrow> bool \<Rightarrow> tensor \<Rightarrow> tensor option" where
  \<comment> \<open>\<open>EquivariantModule.call\<close> on one set, a tensor of shape (N, D)\<close>
  "call_set m training input_set =
     do { input_set \<leftarrow> dense_call (input_projection m) input_set;
          invariant_summary \<leftarrow> invariant_module m training input_set;
          let invariant_summary = replicate (length input_set) invariant_summary;
          output_set \<leftarrow> concatenate [input_set, invariant_summary];
          fc_out \<leftarrow> sequential (equivariant_fc m) output_set;
          output_set \<leftarrow> tensor_op (+) input_set fc_out;
          (case ln_layer m of
             None \<Rightarrow> Some output_set
           | Some l \<Rightarrow> layer_norm_call l output_set) }"

definition equivariant_call :: "equivariant_module \<Rightarrow> bool \<Rightarrow> tensor list \<Rightarrow> tensor list option" where
  \<comment> \<open>\<open>EquivariantModule.call\<close> on a batch of sets, a tensor of shape (B, N, D): every
      operation of \<open>call\<close> works on the last two axes\<close>
  "equivariant_call m training batch = those (map (call_set m training) batch)"

definition permute :: "nat list \<Rightarrow> 'a list \<Rightarrow> 'a list" where
  \<comment> \<open>the elements of a set reordered: position \<open>i\<close> receives element \<open>p ! i\<close>\<close>
  "permute p xs = map (\<lambda>i. xs ! i) p"

definition permutation_invariant :: "(tensor \<Rightarrow> vec option) \<Rightarrow> bool" where
  "permutation_invariant f = (\<forall>xs ys. mset xs = mset ys \<longrightarrow> f xs = f ys)"

text \<open>
  The layer shapes that \<open>__init__\<close> and \<open>build\<close> leave behind for inputs of feature width
  \<open>D\<close>, with \<open>U = units_equivariant\<close> and a summary of width \<open>R\<close>: the input projection maps
  \<open>D\<close> to \<open>U\<close>, the first layer of the equivariant stack maps \<open>U + R\<close> to \<open>U\<close> and the
  others \<open>U\<close> to \<open>U\<close>, the normalisation has \<open>U\<close> scales and shifts, and the invariant module
  turns a non-empty set of rows of width \<open>U\<close> into a row of width \<open>R\<close>.
\<close>

definition dense_shape :: "dense \<Rightarrow> nat \<Rightarrow> nat \<Rightarrow> bool" where
  \<comment> \<open>a kernel of shape \<open>(n, u)\<close> and a bias of length \<open>u\<close>\<close>
  "dense_shape l n u =
     (length (kernel l) = n \<and> list_all (\<lambda>krow. length krow = u) (kernel l) \<and> length (bias l) = u)"

definition built :: "equivariant_module \<Rightarrow> nat \<Rightarrow> nat \<Rightarrow> nat \<Rightarrow> bool" where
  "built m D U R =
     (dense_shape (input_projection m) D U
      \<and> (case equivariant_fc m of
            [] \<Rightarrow> False
          | l # ls \<Rightarrow> dense_shape l (U + R) U \<and> list_all (\<lambda>k. dense_shape k U U) ls)
      \<and> (case ln_layer m of None \<Rightarrow> True | Some l \<Rightarrow> length (gamma l) = U \<and> length (beta l) = U)
      \<and> (\<forall>training P. P \<noteq> [] \<and> list_all (\<lambda>r. length r = U) P
             \<longrightarrow> (\<exists>s. invariant_module m training P = Some s \<and> length s = R)))"

subsection \<open>The module read row by row\<close>

text \<open>
  What a stack of dense layers does to one row, and what the module does to one projected
  element once the summary \<open>s\<close> of its set is known: the equivariant stack on the element
  joined with the summary, the residual sum, the optional normalisation.
\<close>

fun seq_row :: "dense list \<Rightarrow> vec \<Rightarrow> vec option" where
  "seq_row [] r = Some r"
| "seq_row (l # ls) r = dense_row l r \<bind> seq_row ls"

definition row_out :: "equivariant_module \<Rightarrow> vec \<Rightarrow> vec \<Rightarrow> vec option" where
  "row_out m s r =
     do { f \<leftarrow> seq_row (equivariant_fc m) (r @ s);
          out \<leftarrow> vec_op (+) r f;
          (case ln_layer m of None \<Rightarrow> Some out | Some l \<Rightarrow> layer_norm_row l out) }"

subsection \<open>The invariant module\<close>

text \<open>
  Modelled from the spec: \<open>InvariantModule\<close> is not among the sources. It applies an inner
  stack of dense layers to every element of the set, pools over the set axis by the mean or
  by the elementwise maximum, and applies an outer stack of dense layers to the pooled row.
  A pooling layer supplied by the caller is not modelled; pooling over no element has no
  value.
\<close>

datatype pooling = Mean | Max_pool

record invariant_net =
  inner_fc :: "dense list"
  pooling_layer :: pooling
  outer_fc :: "dense list"

definition reduce :: "pooling \<Rightarrow> real list \<Rightarrow> real" where
  "reduce p col = (case p of Mean \<Rightarrow> sum_list col / real (length col) | Max_pool \<Rightarrow> Max (set col))"

definition pool :: "pooling \<Rightarrow> tensor \<Rightarrow> vec option" where
  "pool p xs =
     (if xs \<noteq> [] \<and> list_all (\<lambda>q. length q = length (hd xs)) xs
      then Some (map (\<lambda>j. reduce p (map (\<lambda>q. q ! j) xs)) [0..<length (hd xs)])
      else None)"

definition invariant_call :: "invariant_net \<Rightarrow> bool \<Rightarrow> tensor \<Rightarrow> vec option" where
  "invariant_call im training x =
     do { h \<leftarrow> sequential (inner_fc im) x;
          pooled \<leftarrow> pool (pooling_layer im) h;
          out \<leftarrow> sequential (outer_fc im) [pooled];
          (case out of [r] \<Rightarrow> Some r | _ \<Rightarrow> None) }"

subsection \<open>A concrete module\<close>

text \<open>
  Inputs of width 3, two units in the equivariant layers, a summary of width 1 by mean
  pooling, identity activations and no normalisation.
\<close>

definition small_invariant :: invariant_net where
  "small_invariant =
     \<lparr>inner_fc = [\<lparr>kernel = [[1], [1]], bias = [0], activation = (\<lambda>v. v)\<rparr>],
      pooling_layer = Mean,
      outer_fc = [\<lparr>kernel = [[2]], bias = [1], activation = (\<lambda>v. v)\<rparr>]\<rparr>"

definition small_module :: equivariant_module where
  "small_module =
     \<lparr>invariant_module = invariant_call small_invariant,
      input_projection = \<lparr>kernel = [[1, 0], [0, 1], [1, 1]], bias = [0, 0], activation = (\<lambda>v. v)\<rparr>,
      equivariant_fc = [\<lparr>kernel = [[1, 0], [0, 1], [1, 1]], bias = [0, 1], activation = (\<lambda>v. v)\<rparr>],
      ln_layer = None\<rparr>"

section \<open>Properties of the flow matching network\<close>

subsection \<open>Tensor operations\<close>

lemma those_map_Some: "those (map (\<lambda>x. Some (g x)) xs) = Some (map g xs)"
  by (induction xs) simp_all

lemma those_length: "those xs = Some ys \<Longrightarrow> length ys = length xs"
  by (induction xs arbitrary: ys) (auto split: option.splits)

lemma vec_op_same_length: "length a = length b \<Longrightarrow> vec_op f a b = Some (map2 f a b)"
proof -
  assume "length a = length b"
  moreover have "those (map2 (\<lambda>x y. Some (f x y)) a b) = Some (map2 f a b)"
    using those_map_Some [of "\<lambda>(x, y). f x y" "zip a b"] by (simp add: case_prod_unfold)
  ultimately show ?thesis by (simp add: vec_op_def broadcast_def)
qed

subsection \<open>The network at rest\<close>

text \<open>
  With the zero velocity field every step leaves the state where it is and adds nothing to
  the trace, whatever the number of steps and the direction.
\<close>

lemma still_velocity:
  "velocity_spec (zero_layer 2) (zero_layer (Suc 0)) [[a]] [[t]] None = Some [[0]]"
  by (simp add: velocity_spec_def concatenate_def zero_layer_def)

lemma still_rk2_step:
  "rk2_step (\<lambda>y t. velocity_spec (zero_layer 2) (zero_layer (Suc 0)) y (map (\<lambda>_. [t]) y) None) h [[a]] t
   = Some [[a]]"
  by (simp add: rk2_step_def still_velocity axpy_def tensor_op_def vec_op_def broadcast_def)

lemma still_integrate_steps:
  "integrate_steps rk2_step constant_field_divergence
     (\<lambda>y t. velocity_spec (zero_layer 2) (zero_layer (Suc 0)) y (map (\<lambda>_. [t]) y) None)
     density h n [[a]] t [0]
   = Some ([[a]], [0])"
  by (induction n arbitrary: t)
     (auto simp add: still_rk2_step constant_field_divergence_def vec_op_def broadcast_def)

lemma still_integrate:
  "0 < steps \<Longrightarrow>
   integrate (RK2Integrator spec_env) (subnet still_network) (output_projector still_network)
     [[a]] None steps density d
   = Some (if density then SampleDensity [[a]] [0] else Sample [[a]])"
  by (simp add: spec_env_def still_network_def integrator_spec_def still_integrate_steps)

lemma still_log_prob:
  "log_prob (base_distribution still_network) [[0]] = [- (ln (2 * pi) / 2)]"
  by (simp add: still_network_def standard_normal_def)


subsection \<open>Traces of the integrators\<close>








subsection \<open>The network that grows\<close>

text \<open>
  The values the growing network takes in two steps from the state 1, under each of the
  three integrators, and in any number of RK2 steps.
\<close>

lemmas growth_defs = growth_env_def growth_network_def first_column_def identity_layer_def
  unit_divergence_def integrator_spec_def velocity_spec_def concatenate_def rk2_step_def
  euler_step_def rk4_step_def axpy_def tensor_op_def vec_op_def broadcast_def










lemma steps_only: "\<not> get_density (steps_kwargs n) \<and> get_steps (steps_kwargs n) = n"
  by (simp add: get_density_def get_steps_def steps_kwargs_def)

lemma growth_rk2_forward:
  "integrate (RK2Integrator growth_env) (subnet growth_network) (output_projector growth_network)
     [[1]] None 2 False False = Some (Sample [[169 / 64]])"
  by (simp add: growth_defs eval_nat_numeral)

lemma growth_rk2_inverse:
  "integrate (RK2Integrator growth_env) (subnet growth_network) (output_projector growth_network)
     [[1]] None 2 False True = Some (Sample [[25 / 64]])"
  by (simp add: growth_defs eval_nat_numeral)

lemma growth_euler_forward:
  "integrate (EulerIntegrator growth_env) (subnet growth_network) (output_projector growth_network)
     [[1]] None 2 False False = Some (Sample [[9 / 4]])"
  by (simp add: growth_defs eval_nat_numeral)

lemma growth_rk4_forward:
  "integrate (RK4Integrator growth_env) (subnet growth_network) (output_projector growth_network)
     [[1]] None 2 False False = Some (Sample [[44521 / 16384]])"
  by (simp add: growth_defs eval_nat_numeral)

lemma growth_velocity:
  "velocity (RK2Integrator growth_env) (subnet growth_network) (output_projector growth_network)
     [[1 / 2]] [[1 / 2]] None = Some [[1 / 2]]"
  by (simp add: growth_defs)

lemma growth_configure:
  "configure e growth_network (Sequence [[[0]], [[1]], [[1 / 2]], [[1 / 2]], [[1]]]) None
     = Some \<lparr>tp_x0 = [[0]], tp_x1 = [[1]], tp_t = [[1 / 2]], tp_x = [[1 / 2]],
             tp_target_velocity = [[1]], tp_conditions = None, tp_seed = 0\<rparr>"
  by (simp add: configure_def growth_network_def)

lemma growth_loss:
  "mean_squared_error [[1]] [[1 / 2]] = Some [1 / 4] \<and> mean [1 / 4] = Some (1 / 4)"
  by (simp add: mean_squared_error_def tensor_op_def vec_op_def broadcast_def mean_def)

lemma growth_rk2_step:
  "rk2_step (\<lambda>y t. velocity_spec first_column identity_layer y (map (\<lambda>_. [t]) y) None) h [[a]] t
   = Some [[a * (1 + h + h * h / 2)]]"
  by (simp add: rk2_step_def velocity_spec_def concatenate_def first_column_def identity_layer_def
      axpy_def tensor_op_def vec_op_def broadcast_def algebra_simps)

lemma growth_integrate_steps:
  "integrate_steps rk2_step D
     (\<lambda>y t. velocity_spec first_column identity_layer y (map (\<lambda>_. [t]) y) None)
     False h n [[a]] t [0]
   = Some ([[a * (1 + h + h * h / 2) ^ n]], [0])"
  by (induction n arbitrary: a t) (simp_all add: growth_rk2_step algebra_simps)

lemma growth_integrate:
  "0 < steps \<Longrightarrow>
   integrate (RK2Integrator growth_env) (subnet growth_network) (output_projector growth_network)
     [[a]] None steps False bwd
   = Some (Sample [[a * (1 + (if bwd then - 1 else 1) / real_of_int steps
                        + ((if bwd then - 1 else 1) / real_of_int steps)
                          * ((if bwd then - 1 else 1) / real_of_int steps) / 2) ^ nat steps]])"
  by (simp add: growth_env_def growth_network_def integrator_spec_def growth_integrate_steps)

subsection \<open>Log-densities\<close>

text \<open>
  C1. With density requested, \<open>_forward\<close> returns the endpoint \<open>z\<close> of the integration
  together with the base distribution's log-probability at \<open>z\<close> plus the accumulated trace,
  and \<open>_inverse\<close> returns the endpoint \<open>x\<close> together with the base distribution's
  log-probability (taken at its argument \<open>z\<close>) minus the accumulated trace. The sums are
  per batch element: both vectors have one entry for each.
\<close>

theorem log_density_sign:
  "get_density kw \<Longrightarrow>
   (\<forall>z tr. integrate (RK2Integrator e) (subnet fm) (output_projector fm) xz c (get_steps kw) True False
              = Some (SampleDensity z tr)
            \<and> length tr = length (log_prob (base_distribution fm) z)
      \<longrightarrow> fm_forward e fm xz c kw
            = Some (SampleDensity z (map2 (+) (log_prob (base_distribution fm) z) tr)))
   \<and> (\<forall>x tr. integrate (RK2Integrator e) (subnet fm) (output_projector fm) xz c (get_steps kw) True True
              = Some (SampleDensity x tr)
            \<and> length tr = length (log_prob (base_distribution fm) xz)
      \<longrightarrow> fm_inverse e fm xz c kw
            = Some (SampleDensity x (map2 (-) (log_prob (base_distribution fm) xz) tr)))"
  by (simp add: fm_forward_def fm_inverse_def vec_op_same_length)

theorem log_density_sign_witness:
  "get_density density_kwargs
   \<and> integrate (RK2Integrator spec_env) (subnet still_network) (output_projector still_network)
         [[0]] None (get_steps density_kwargs) True False = Some (SampleDensity [[0]] [0])
   \<and> integrate (RK2Integrator spec_env) (subnet still_network) (output_projector still_network)
         [[0]] None (get_steps density_kwargs) True True = Some (SampleDensity [[0]] [0])
   \<and> length [0::real] = length (log_prob (base_distribution still_network) [[0]])
   \<and> fm_forward spec_env still_network [[0]] None density_kwargs
       = Some (SampleDensity [[0]] [- (ln (2 * pi) / 2) + 0])
   \<and> fm_inverse spec_env still_network [[0]] None density_kwargs
       = Some (SampleDensity [[0]] [- (ln (2 * pi) / 2) - 0])"
proof -
  have d: "get_density density_kwargs"
    by (simp add: get_density_def density_kwargs_def)
  have s: "get_steps density_kwargs = 100"
    by (simp add: get_steps_def density_kwargs_def)
  show ?thesis
    using log_density_sign [OF d, of spec_env still_network "[[0]]" None] d
    by (simp add: s still_integrate still_log_prob)
qed




subsection \<open>The integrator in use\<close>

lemma configure_other_integrators:
  "configure (e\<lparr>EulerIntegrator := a, RK4Integrator := b\<rparr>) fm inp c = configure e fm inp c"
  by (cases inp) (simp_all add: configure_def Let_def case_prod_unfold)

text \<open>
  C3. \<open>_forward\<close>, \<open>_inverse\<close> and \<open>compute_metrics\<close> construct an \<open>RK2Integrator\<close> at each
  call and use no other integrator: the two sampling directions return what the call of the
  RK2 integrator returns (with density, its state and the log-probability plus or minus its
  trace), and the loss is computed from the velocity of the RK2 integrator. So the results
  do not change when the Euler and RK4 integrators are replaced by anything else, they
  depend on the environment through \<open>RK2Integrator\<close> alone, and on the network object
  through its subnet, projector and base distribution alone; the object has no integrator
  attribute that a configuration could set.
\<close>

theorem integrator_is_rk2:
  "fm_forward e fm xz c kw
     = (if get_density kw
        then (case integrate (RK2Integrator e) (subnet fm) (output_projector fm) xz c (get_steps kw) True False of
                Some (SampleDensity z tr) \<Rightarrow>
                  map_option (SampleDensity z) (vec_op (+) (log_prob (base_distribution fm) z) tr)
              | _ \<Rightarrow> None)
        else integrate (RK2Integrator e) (subnet fm) (output_projector fm) xz c (get_steps kw) False False)
   \<and> fm_inverse e fm xz c kw
     = (if get_density kw
        then (case integrate (RK2Integrator e) (subnet fm) (output_projector fm) xz c (get_steps kw) True True of
                Some (SampleDensity x tr) \<Rightarrow>
                  map_option (SampleDensity x) (vec_op (-) (log_prob (base_distribution fm) xz) tr)
              | _ \<Rightarrow> None)
        else integrate (RK2Integrator e) (subnet fm) (output_projector fm) xz c (get_steps kw) False True)
   \<and> fm_compute_metrics e fm inp c stage
     = do { p \<leftarrow> configure e fm inp c;
            predicted_velocity \<leftarrow>
              velocity (RK2Integrator e) (subnet fm) (output_projector fm) (tp_x p) (tp_t p) (tp_conditions p);
            squares \<leftarrow> mean_squared_error (tp_target_velocity p) predicted_velocity;
            loss \<leftarrow> mean squares;
            Some (base_compute_metrics e fm (tp_x1 p) (tp_conditions p) stage ++ [''loss'' \<mapsto> loss],
                  fm\<lparr>seed_generator := tp_seed p\<rparr>) }
   \<and> fm_forward (e\<lparr>EulerIntegrator := a, RK4Integrator := b\<rparr>) fm xz c kw = fm_forward e fm xz c kw
   \<and> fm_inverse (e\<lparr>EulerIntegrator := a, RK4Integrator := b\<rparr>) fm xz c kw = fm_inverse e fm xz c kw
   \<and> fm_compute_metrics (e\<lparr>EulerIntegrator := a, RK4Integrator := b\<rparr>) fm inp c stage
       = fm_compute_metrics e fm inp c stage
   \<and> (RK2Integrator e' = RK2Integrator e \<longrightarrow>
        fm_forward e' fm xz c kw = fm_forward e fm xz c kw
      \<and> fm_inverse e' fm xz c kw = fm_inverse e fm xz c kw)
   \<and> (subnet fm' = subnet fm \<and> output_projector fm' = output_projector fm
        \<and> base_distribution fm' = base_distribution fm \<longrightarrow>
        fm_forward e fm' xz c kw = fm_forward e fm xz c kw
      \<and> fm_inverse e fm' xz c kw = fm_inverse e fm xz c kw)"
proof -
  have f: "fm_forward e fm xz c kw
     = (if get_density kw
        then (case integrate (RK2Integrator e) (subnet fm) (output_projector fm) xz c (get_steps kw) True False of
                Some (SampleDensity z tr) \<Rightarrow>
                  map_option (SampleDensity z) (vec_op (+) (log_prob (base_distribution fm) z) tr)
              | _ \<Rightarrow> None)
        else integrate (RK2Integrator e) (subnet fm) (output_projector fm) xz c (get_steps kw) False False)"
    for e fm
    by (simp add: fm_forward_def Let_def split: option.splits outcome.splits)
  have i: "fm_inverse e fm xz c kw
     = (if get_density kw
        then (case integrate (RK2Integrator e) (subnet fm) (output_projector fm) xz c (get_steps kw) True True of
                Some (SampleDensity x tr) \<Rightarrow>
                  map_option (SampleDensity x) (vec_op (-) (log_prob (base_distribution fm) xz) tr)
              | _ \<Rightarrow> None)
        else integrate (RK2Integrator e) (subnet fm) (output_projector fm) xz c (get_steps kw) False True)"
    for e fm
    by (simp add: fm_inverse_def Let_def split: option.splits outcome.splits)
  have m: "fm_compute_metrics e fm inp c stage
     = do { p \<leftarrow> configure e fm inp c;
            predicted_velocity \<leftarrow>
              velocity (RK2Integrator e) (subnet fm) (output_projector fm) (tp_x p) (tp_t p) (tp_conditions p);
            squares \<leftarrow> mean_squared_error (tp_target_velocity p) predicted_velocity;
            loss \<leftarrow> mean squares;
            Some (base_compute_metrics e fm (tp_x1 p) (tp_conditions p) stage ++ [''loss'' \<mapsto> loss],
                  fm\<lparr>seed_generator := tp_seed p\<rparr>) }"
    for e
    by (simp add: fm_compute_metrics_def)
  have f2: "fm_forward (e\<lparr>EulerIntegrator := a, RK4Integrator := b\<rparr>) fm xz c kw = fm_forward e fm xz c kw"
    unfolding f by simp
  have i2: "fm_inverse (e\<lparr>EulerIntegrator := a, RK4Integrator := b\<rparr>) fm xz c kw = fm_inverse e fm xz c kw"
    unfolding i by simp
  have m2: "fm_compute_metrics (e\<lparr>EulerIntegrator := a, RK4Integrator := b\<rparr>) fm inp c stage
       = fm_compute_metrics e fm inp c stage"
    unfolding m by (simp add: configure_other_integrators)
  have e': "RK2Integrator e' = RK2Integrator e \<longrightarrow>
        fm_forward e' fm xz c kw = fm_forward e fm xz c kw
      \<and> fm_inverse e' fm xz c kw = fm_inverse e fm xz c kw"
    unfolding f i by simp
  have fm': "subnet fm' = subnet fm \<and> output_projector fm' = output_projector fm
        \<and> base_distribution fm' = base_distribution fm \<longrightarrow>
        fm_forward e fm' xz c kw = fm_forward e fm xz c kw
      \<and> fm_inverse e fm' xz c kw = fm_inverse e fm xz c kw"
    unfolding f i by (simp split: option.splits outcome.splits)
  show ?thesis
    by (intro conjI f i m f2 i2 m2 e' fm')
qed

theorem integrator_is_rk2_witness:
  "RK2Integrator (growth_env\<lparr>EulerIntegrator := failing_integrator, RK4Integrator := failing_integrator\<rparr>)
     = RK2Integrator growth_env
   \<and> subnet (growth_network\<lparr>use_optimal_transport := True, seed_generator := 7\<rparr>) = subnet growth_network
   \<and> output_projector (growth_network\<lparr>use_optimal_transport := True, seed_generator := 7\<rparr>)
       = output_projector growth_network
   \<and> base_distribution (growth_network\<lparr>use_optimal_transport := True, seed_generator := 7\<rparr>)
       = base_distribution growth_network
   \<and> integrate (RK2Integrator growth_env) (subnet growth_network) (output_projector growth_network)
         [[1]] None 2 False False = Some (Sample [[169 / 64]])
   \<and> integrate (EulerIntegrator growth_env) (subnet growth_network) (output_projector growth_network)
         [[1]] None 2 False False = Some (Sample [[9 / 4]])
   \<and> integrate (RK4Integrator growth_env) (subnet growth_network) (output_projector growth_network)
         [[1]] None 2 False False = Some (Sample [[44521 / 16384]])
   \<and> integrate (RK2Integrator growth_env) (subnet growth_network) (output_projector growth_network)
         [[1]] None 2 False True = Some (Sample [[25 / 64]])
   \<and> fm_forward growth_env growth_network [[1]] None (steps_kwargs 2) = Some (Sample [[169 / 64]])
   \<and> fm_inverse growth_env growth_network [[1]] None (steps_kwargs 2) = Some (Sample [[25 / 64]])
   \<and> fm_forward (growth_env\<lparr>EulerIntegrator := failing_integrator, RK4Integrator := failing_integrator\<rparr>)
         growth_network [[1]] None (steps_kwargs 2) = Some (Sample [[169 / 64]])
   \<and> fm_inverse (growth_env\<lparr>EulerIntegrator := failing_integrator, RK4Integrator := failing_integrator\<rparr>)
         growth_network [[1]] None (steps_kwargs 2) = Some (Sample [[25 / 64]])
   \<and> fm_forward growth_env (growth_network\<lparr>use_optimal_transport := True, seed_generator := 7\<rparr>)
         [[1]] None (steps_kwargs 2) = Some (Sample [[169 / 64]])
   \<and> fm_compute_metrics (growth_env\<lparr>EulerIntegrator := failing_integrator, RK4Integrator := failing_integrator\<rparr>)
         growth_network (Sequence [[[0]], [[1]], [[1 / 2]], [[1 / 2]], [[1]]]) None ''training''
       = Some ((base_compute_metrics growth_env growth_network [[1]] None ''training'')(''loss'' \<mapsto> 1 / 4),
               growth_network\<lparr>seed_generator := 0\<rparr>)"
  using integrator_is_rk2 [where e = growth_env and a = failing_integrator and b = failing_integrator
      and fm = growth_network and xz = "[[1]]" and c = None and kw = "steps_kwargs 2"
      and e' = "growth_env\<lparr>EulerIntegrator := failing_integrator, RK4Integrator := failing_integrator\<rparr>"
      and fm' = "growth_network\<lparr>use_optimal_transport := True, seed_generator := 7\<rparr>"
      and inp = "Sequence [[[0]], [[1]], [[1 / 2]], [[1 / 2]], [[1]]]" and stage = "''training''"]
  by (simp add: steps_only growth_rk2_forward growth_rk2_inverse growth_euler_forward
      growth_rk4_forward growth_configure growth_velocity growth_loss)

subsection \<open>Dispatch and defaults\<close>

text \<open>
  C7. \<open>call\<close> runs \<open>_inverse\<close> exactly when \<open>inverse\<close> is true and \<open>_forward\<close> otherwise,
  and \<open>inverse\<close> left out is \<open>False\<close>. With no keyword given, \<open>_forward\<close> is the forward
  integration and \<open>_inverse\<close> the inverse integration, both without density
  (\<open>density=False\<close>) and in 100 steps; a \<open>steps\<close> keyword replaces the 100 in both
  directions, and with \<open>density=True\<close> and no \<open>steps\<close> keyword the integration with trace
  runs in 100 steps as well.
\<close>

theorem call_dispatch:
  "fm_call e fm xz c inverse_arg kw
     = (if inverse_arg = Some True then fm_inverse e fm xz c kw else fm_forward e fm xz c kw)
   \<and> fm_call e fm xz c None kw = fm_forward e fm xz c kw
   \<and> fm_call e fm xz None None no_kwargs
     = integrate (RK2Integrator e) (subnet fm) (output_projector fm) xz None 100 False False
   \<and> fm_call e fm xz None (Some True) no_kwargs
     = integrate (RK2Integrator e) (subnet fm) (output_projector fm) xz None 100 False True
   \<and> fm_forward e fm xz c \<lparr>kw_density = None, kw_steps = None\<rparr>
     = integrate (RK2Integrator e) (subnet fm) (output_projector fm) xz c 100 False False
   \<and> fm_inverse e fm xz c \<lparr>kw_density = None, kw_steps = None\<rparr>
     = integrate (RK2Integrator e) (subnet fm) (output_projector fm) xz c 100 False True
   \<and> fm_forward e fm xz c \<lparr>kw_density = None, kw_steps = Some n\<rparr>
     = integrate (RK2Integrator e) (subnet fm) (output_projector fm) xz c n False False
   \<and> fm_inverse e fm xz c \<lparr>kw_density = None, kw_steps = Some n\<rparr>
     = integrate (RK2Integrator e) (subnet fm) (output_projector fm) xz c n False True
   \<and> fm_forward e fm xz c \<lparr>kw_density = Some True, kw_steps = None\<rparr>
     = (case integrate (RK2Integrator e) (subnet fm) (output_projector fm) xz c 100 True False of
          Some (SampleDensity z tr) \<Rightarrow>
            map_option (SampleDensity z) (vec_op (+) (log_prob (base_distribution fm) z) tr)
        | _ \<Rightarrow> None)
   \<and> fm_inverse e fm xz c \<lparr>kw_density = Some True, kw_steps = None\<rparr>
     = (case integrate (RK2Integrator e) (subnet fm) (output_projector fm) xz c 100 True True of
          Some (SampleDensity x tr) \<Rightarrow>
            map_option (SampleDensity x) (vec_op (-) (log_prob (base_distribution fm) xz) tr)
        | _ \<Rightarrow> None)
   \<and> fm_forward e fm xz c \<lparr>kw_density = None, kw_steps = st\<rparr>
     = fm_forward e fm xz c \<lparr>kw_density = Some False, kw_steps = st\<rparr>
   \<and> fm_inverse e fm xz c \<lparr>kw_density = None, kw_steps = st\<rparr>
     = fm_inverse e fm xz c \<lparr>kw_density = Some False, kw_steps = st\<rparr>
   \<and> fm_forward e fm xz c \<lparr>kw_density = d, kw_steps = None\<rparr>
     = fm_forward e fm xz c \<lparr>kw_density = d, kw_steps = Some 100\<rparr>
   \<and> fm_inverse e fm xz c \<lparr>kw_density = d, kw_steps = None\<rparr>
     = fm_inverse e fm xz c \<lparr>kw_density = d, kw_steps = Some 100\<rparr>"
proof -
  have c1: "fm_call e fm xz c inverse_arg kw
     = (if inverse_arg = Some True then fm_inverse e fm xz c kw else fm_forward e fm xz c kw)"
    for c inverse_arg kw
    by (cases inverse_arg) (auto simp add: fm_call_def)
  have f: "fm_forward e fm xz c \<lparr>kw_density = None, kw_steps = None\<rparr>
     = integrate (RK2Integrator e) (subnet fm) (output_projector fm) xz c 100 False False" for c
    by (simp add: fm_forward_def get_steps_def get_density_def)
  have i: "fm_inverse e fm xz c \<lparr>kw_density = None, kw_steps = None\<rparr>
     = integrate (RK2Integrator e) (subnet fm) (output_projector fm) xz c 100 False True" for c
    by (simp add: fm_inverse_def get_steps_def get_density_def)
  have fn: "fm_forward e fm xz c \<lparr>kw_density = None, kw_steps = Some n\<rparr>
     = integrate (RK2Integrator e) (subnet fm) (output_projector fm) xz c n False False"
    by (simp add: fm_forward_def get_steps_def get_density_def)
  have "in": "fm_inverse e fm xz c \<lparr>kw_density = None, kw_steps = Some n\<rparr>
     = integrate (RK2Integrator e) (subnet fm) (output_projector fm) xz c n False True"
    by (simp add: fm_inverse_def get_steps_def get_density_def)
  have fd: "fm_forward e fm xz c \<lparr>kw_density = Some True, kw_steps = None\<rparr>
     = (case integrate (RK2Integrator e) (subnet fm) (output_projector fm) xz c 100 True False of
          Some (SampleDensity z tr) \<Rightarrow>
            map_option (SampleDensity z) (vec_op (+) (log_prob (base_distribution fm) z) tr)
        | _ \<Rightarrow> None)"
    by (simp add: fm_forward_def get_steps_def get_density_def Let_def
        split: option.splits outcome.splits)
  have id: "fm_inverse e fm xz c \<lparr>kw_density = Some True, kw_steps = None\<rparr>
     = (case integrate (RK2Integrator e) (subnet fm) (output_projector fm) xz c 100 True True of
          Some (SampleDensity x tr) \<Rightarrow>
            map_option (SampleDensity x) (vec_op (-) (log_prob (base_distribution fm) xz) tr)
        | _ \<Rightarrow> None)"
    by (simp add: fm_inverse_def get_steps_def get_density_def Let_def
        split: option.splits outcome.splits)
  have c2: "fm_call e fm xz c None kw = fm_forward e fm xz c kw"
    by (simp add: c1)
  have c3: "fm_call e fm xz None None no_kwargs
     = integrate (RK2Integrator e) (subnet fm) (output_projector fm) xz None 100 False False"
    by (simp add: c1 no_kwargs_def f)
  have c4: "fm_call e fm xz None (Some True) no_kwargs
     = integrate (RK2Integrator e) (subnet fm) (output_projector fm) xz None 100 False True"
    by (simp add: c1 no_kwargs_def i)
  have e1: "fm_forward e fm xz c \<lparr>kw_density = None, kw_steps = st\<rparr>
     = fm_forward e fm xz c \<lparr>kw_density = Some False, kw_steps = st\<rparr>"
    by (simp add: fm_forward_def get_steps_def get_density_def)
  have e2: "fm_inverse e fm xz c \<lparr>kw_density = None, kw_steps = st\<rparr>
     = fm_inverse e fm xz c \<lparr>kw_density = Some False, kw_steps = st\<rparr>"
    by (simp add: fm_inverse_def get_steps_def get_density_def)
  have e3: "fm_forward e fm xz c \<lparr>kw_density = d, kw_steps = None\<rparr>
     = fm_forward e fm xz c \<lparr>kw_density = d, kw_steps = Some 100\<rparr>"
    by (simp add: fm_forward_def get_steps_def get_density_def)
  have e4: "fm_inverse e fm xz c \<lparr>kw_density = d, kw_steps = None\<rparr>
     = fm_inverse e fm xz c \<lparr>kw_density = d, kw_steps = Some 100\<rparr>"
    by (simp add: fm_inverse_def get_steps_def get_density_def)
  show ?thesis
    by (intro conjI c1 c2 c3 c4 f i fn "in" fd id e1 e2 e3 e4)
qed

theorem call_dispatch_witness:
  "fm_call growth_env growth_network [[1]] None None no_kwargs
     = Some (Sample [[(20201 / 20000) ^ 100]])
   \<and> fm_call growth_env growth_network [[1]] None (Some False) no_kwargs
     = Some (Sample [[(20201 / 20000) ^ 100]])
   \<and> fm_call growth_env growth_network [[1]] None (Some True) no_kwargs
     = Some (Sample [[(19801 / 20000) ^ 100]])
   \<and> fm_call growth_env growth_network [[1]] None None (steps_kwargs 2) = Some (Sample [[169 / 64]])
   \<and> fm_call growth_env growth_network [[1]] None (Some True) (steps_kwargs 2) = Some (Sample [[25 / 64]])"
proof -
  note a = call_dispatch [where e = growth_env and fm = growth_network and xz = "[[1]]" and c = None
      and inverse_arg = "Some False" and kw = no_kwargs and n = 2]
  note b = call_dispatch [where e = growth_env and fm = growth_network and xz = "[[1]]" and c = None
      and inverse_arg = "Some True" and kw = "steps_kwargs 2" and n = 2]
  note forward_default = a [THEN conjunct2, THEN conjunct2, THEN conjunct2, THEN conjunct2, THEN conjunct1]
  note forward_steps = a [THEN conjunct2, THEN conjunct2, THEN conjunct2, THEN conjunct2,
      THEN conjunct2, THEN conjunct2, THEN conjunct1]
  note inverse_steps = a [THEN conjunct2, THEN conjunct2, THEN conjunct2, THEN conjunct2,
      THEN conjunct2, THEN conjunct2, THEN conjunct2, THEN conjunct1]
  have 1: "fm_call growth_env growth_network [[1]] None None no_kwargs
     = Some (Sample [[(20201 / 20000) ^ 100]])"
    unfolding a [THEN conjunct2, THEN conjunct2, THEN conjunct1] by (simp add: growth_integrate)
  have 2: "fm_call growth_env growth_network [[1]] None (Some False) no_kwargs
     = Some (Sample [[(20201 / 20000) ^ 100]])"
    using a [THEN conjunct1] forward_default by (simp add: no_kwargs_def growth_integrate)
  have 3: "fm_call growth_env growth_network [[1]] None (Some True) no_kwargs
     = Some (Sample [[(19801 / 20000) ^ 100]])"
    unfolding a [THEN conjunct2, THEN conjunct2, THEN conjunct2, THEN conjunct1]
    by (simp add: growth_integrate)
  have 4: "fm_call growth_env growth_network [[1]] None None (steps_kwargs 2) = Some (Sample [[169 / 64]])"
    using b [THEN conjunct2, THEN conjunct1] forward_steps
    by (simp add: steps_kwargs_def growth_rk2_forward)
  have 5: "fm_call growth_env growth_network [[1]] None (Some True) (steps_kwargs 2) = Some (Sample [[25 / 64]])"
    using b [THEN conjunct1] inverse_steps
    by (simp add: steps_kwargs_def growth_rk2_inverse)
  show ?thesis
    by (intro conjI 1 2 3 4 5)
qed

section \<open>Properties of the training step\<close>

subsection \<open>Elementwise operations on tensors of matching shapes\<close>

lemma those_map_eq:
  "(\<And>x. x \<in> set xs \<Longrightarrow> g x = Some (h x)) \<Longrightarrow> those (map g xs) = Some (map h xs)"
  by (induction xs) simp_all

lemma vec_op_scalar: "length tr = 1 \<Longrightarrow> vec_op f tr row = Some (map (f (hd tr)) row)"
proof (cases "length row = 1")
  case True
  assume "length tr = 1"
  then obtain a where a: "tr = [a]" by (cases tr) auto
  from True obtain b where b: "row = [b]" by (cases row) auto
  show ?thesis by (simp add: a b vec_op_def broadcast_def)
next
  case False
  assume "length tr = 1"
  then show ?thesis using False
    by (simp add: vec_op_def broadcast_def those_map_Some)
qed

lemma tensor_op_same_shape:
  assumes "length a = length b" and "\<forall>i < length a. length (a ! i) = length (b ! i)"
  shows "tensor_op f a b = Some (map2 (map2 f) a b)"
proof -
  have "\<And>p. p \<in> set (zip a b) \<Longrightarrow> (\<lambda>(x, y). vec_op f x y) p = Some ((\<lambda>(x, y). map2 f x y) p)"
  proof -
    fix p assume "p \<in> set (zip a b)"
    then obtain i where "i < length a" "p = (a ! i, b ! i)"
      using assms(1) by (auto simp add: set_zip)
    then show "(\<lambda>(x, y). vec_op f x y) p = Some ((\<lambda>(x, y). map2 f x y) p)"
      using assms(2) by (simp add: vec_op_same_length)
  qed
  then have "those (map (\<lambda>(x, y). vec_op f x y) (zip a b)) = Some (map (\<lambda>(x, y). map2 f x y) (zip a b))"
    by (rule those_map_eq)
  then show ?thesis using assms(1) by (simp add: tensor_op_def broadcast_def)
qed

lemma tensor_op_column:
  assumes "length t = length x" and "\<forall>i < length t. length (t ! i) = 1"
  shows "tensor_op f t x = Some (map2 (\<lambda>tr row. map (f (hd tr)) row) t x)"
proof -
  have "\<And>p. p \<in> set (zip t x) \<Longrightarrow>
          (\<lambda>(tr, row). vec_op f tr row) p = Some ((\<lambda>(tr, row). map (f (hd tr)) row) p)"
  proof -
    fix p assume "p \<in> set (zip t x)"
    then obtain i where "i < length t" "p = (t ! i, x ! i)"
      using assms(1) by (auto simp add: set_zip)
    then show "(\<lambda>(tr, row). vec_op f tr row) p = Some ((\<lambda>(tr, row). map (f (hd tr)) row) p)"
      using assms(2) by (simp add: vec_op_scalar)
  qed
  then have "those (map (\<lambda>(tr, row). vec_op f tr row) (zip t x))
               = Some (map (\<lambda>(tr, row). map (f (hd tr)) row) (zip t x))"
    by (rule those_map_eq)
  then show ?thesis using assms(1) by (simp add: tensor_op_def broadcast_def)
qed


lemmas run_defs = spec_env_def still_network_def ot_network_def shape_def
  tensor_op_def vec_op_def broadcast_def


subsection \<open>A pre-configured sequence\<close>

lemma configure_sequence:
  "configure e fm (Sequence [x0, x1, t, x, tv]) c
     = Some \<lparr>tp_x0 = x0, tp_x1 = x1, tp_t = t, tp_x = x, tp_target_velocity = tv,
             tp_conditions = c, tp_seed = seed_generator fm\<rparr>"
  by (simp add: configure_def)

lemma configure_sequence_no_sampling:
  "configure (e\<lparr>random_normal := rn, random_uniform := ru, optimal_transport := ot,
                 expand_right_as := er\<rparr>) (fm\<lparr>use_optimal_transport := u\<rparr>) (Sequence s) c
     = configure e fm (Sequence s) c"
  by (simp add: configure_def split: list.splits)

lemma compute_metrics_sequence:
  "fm_compute_metrics e fm (Sequence [x0, x1, t, x, tv]) c stage
     = (case velocity (RK2Integrator e) (subnet fm) (output_projector fm) x t c of
          None \<Rightarrow> None
        | Some predicted_velocity \<Rightarrow>
            (case mean_squared_error tv predicted_velocity of
               None \<Rightarrow> None
             | Some l \<Rightarrow>
                 (case mean l of
                    None \<Rightarrow> None
                  | Some loss \<Rightarrow>
                      Some (base_compute_metrics e fm x1 c stage ++ [''loss'' \<mapsto> loss], fm))))"
  by (simp add: fm_compute_metrics_def configure_sequence split: option.splits)

text \<open>
  C9. A sequence argument is unpacked as \<open>(x0, x1, t, x, target_velocity)\<close> and these values
  are used as they are: the seed generator keeps its state, the result is the same whatever
  the random number generator, the coupling and \<open>use_optimal_transport\<close> are, and the loss is
  computed from the given \<open>x\<close>, \<open>t\<close> and \<open>target_velocity\<close>. The returned object is the
  one passed in.
\<close>

theorem preconfigured_pair:
  "configure e fm (Sequence [x0, x1, t, x, tv]) c
     = Some \<lparr>tp_x0 = x0, tp_x1 = x1, tp_t = t, tp_x = x, tp_target_velocity = tv,
             tp_conditions = c, tp_seed = seed_generator fm\<rparr>
   \<and> configure (e\<lparr>random_normal := rn, random_uniform := ru, optimal_transport := ot,
                   expand_right_as := er\<rparr>) (fm\<lparr>use_optimal_transport := u\<rparr>) (Sequence s) c
     = configure e fm (Sequence s) c
   \<and> fm_compute_metrics e fm (Sequence [x0, x1, t, x, tv]) c stage
     = (case velocity (RK2Integrator e) (subnet fm) (output_projector fm) x t c of
          None \<Rightarrow> None
        | Some predicted_velocity \<Rightarrow>
            (case mean_squared_error tv predicted_velocity of
               None \<Rightarrow> None
             | Some l \<Rightarrow>
                 (case mean l of
                    None \<Rightarrow> None
                  | Some loss \<Rightarrow>
                      Some (base_compute_metrics e fm x1 c stage ++ [''loss'' \<mapsto> loss], fm))))"
  by (intro conjI configure_sequence configure_sequence_no_sampling compute_metrics_sequence)

subsection \<open>A fresh training pair\<close>

lemma configure_batch:
  assumes "(if use_optimal_transport fm
            then optimal_transport e x1 (random_normal e (shape x1) (seed_generator fm)) c
                   (seed_generator fm + 1) (optimal_transport_kwargs fm)
            else ((x1, random_normal e (shape x1) (seed_generator fm), c), seed_generator fm + 1))
           = ((y1, y0, c'), s)"
  shows "configure e fm (Batch x1) c =
           do { a \<leftarrow> tensor_op (*) (expand_right_as e (random_uniform e (length y0) s) y0) y1;
                b \<leftarrow> tensor_op (*)
                      (map (map (\<lambda>v. 1 - v)) (expand_right_as e (random_uniform e (length y0) s) y0)) y0;
                x \<leftarrow> tensor_op (+) a b;
                target_velocity \<leftarrow> tensor_op (-) y1 y0;
                Some \<lparr>tp_x0 = y0, tp_x1 = y1,
                      tp_t = expand_right_as e (random_uniform e (length y0) s) y0, tp_x = x,
                      tp_target_velocity = target_velocity,
                      tp_conditions = c', tp_seed = s + 1\<rparr> }"
  unfolding configure_def cm_input.case Let_def assms
  by (simp add: shape_def)

text \<open>
  C5. For a batch \<open>x1\<close> that is not a sequence: \<open>x0\<close> is drawn by \<open>keras.random.normal\<close>
  with the shape of \<open>x1\<close>; with optimal transport enabled, \<open>x1\<close> and \<open>x0\<close> (and the
  conditions) are replaced by what the coupling returns, before anything else is computed
  from them; \<open>t\<close> is drawn uniformly, one value per batch element; then, for rows of equal
  width, entry \<open>j\<close> of row \<open>b\<close> of the interpolated state is
  \<open>t\<^sub>b * x1\<^sub>b\<^sub>j + (1 - t\<^sub>b) * x0\<^sub>b\<^sub>j\<close> and that of the target velocity is
  \<open>x1\<^sub>b\<^sub>j - x0\<^sub>b\<^sub>j\<close>. The seed generator has advanced past the draws.
\<close>

theorem fresh_training_pair:
  assumes x0: "x0 = random_normal e (shape x1) (seed_generator fm)"
    and ot: "(if use_optimal_transport fm
              then optimal_transport e x1 x0 c (seed_generator fm + 1) (optimal_transport_kwargs fm)
              else ((x1, x0, c), seed_generator fm + 1)) = ((y1, y0, c'), s)"
    and t: "t = expand_right_as e (random_uniform e (length y0) s) y0"
    and len: "length y1 = B" "length y0 = B" "length t = B"
    and rows: "\<forall>b < B. length (y1 ! b) = D \<and> length (y0 ! b) = D \<and> length (t ! b) = 1"
  shows "\<exists>p. configure e fm (Batch x1) c = Some p
           \<and> tp_x0 p = y0 \<and> tp_x1 p = y1 \<and> tp_t p = t \<and> tp_conditions p = c' \<and> tp_seed p = s + 1
           \<and> length (tp_x p) = B \<and> length (tp_target_velocity p) = B
           \<and> (\<forall>b < B. length (tp_x p ! b) = D \<and> length (tp_target_velocity p ! b) = D
                \<and> (\<forall>j < D. tp_x p ! b ! j = t ! b ! 0 * y1 ! b ! j + (1 - t ! b ! 0) * y0 ! b ! j
                          \<and> tp_target_velocity p ! b ! j = y1 ! b ! j - y0 ! b ! j))"
proof -
  let ?u = "map (map (\<lambda>v. 1 - v)) t"
  let ?a = "map2 (\<lambda>tr row. map ((*) (hd tr)) row) t y1"
  let ?b = "map2 (\<lambda>tr row. map ((*) (hd tr)) row) ?u y0"
  let ?x = "map2 (map2 (+)) ?a ?b"
  let ?v = "map2 (map2 (-)) y1 y0"
  have a: "tensor_op (*) t y1 = Some ?a"
    using len rows by (intro tensor_op_column) simp_all
  have b: "tensor_op (*) ?u y0 = Some ?b"
    using len rows by (intro tensor_op_column) simp_all
  have x: "tensor_op (+) ?a ?b = Some ?x"
    using len rows by (intro tensor_op_same_shape) simp_all
  have v: "tensor_op (-) y1 y0 = Some ?v"
    using len rows by (intro tensor_op_same_shape) simp_all
  define xx where "xx = ?x"
  define vv where "vv = ?v"
  let ?p = "\<lparr>tp_x0 = y0, tp_x1 = y1, tp_t = t, tp_x = xx, tp_target_velocity = vv,
             tp_conditions = c', tp_seed = s + 1\<rparr>"
  have cfg: "configure e fm (Batch x1) c = Some ?p"
    using configure_batch [OF ot [unfolded x0]] a b x v
    by (simp add: t [symmetric] xx_def vv_def)
  have hd0: "hd (t ! b) = t ! b ! 0 \<and> hd (map (\<lambda>v. 1 - v) (t ! b)) = 1 - t ! b ! 0" if "b < B" for b
  proof -
    have "length (t ! b) = 1" using rows that by simp
    then have "t ! b \<noteq> []" by auto
    then show ?thesis by (simp add: hd_conv_nth hd_map)
  qed
  have ln: "length xx = B \<and> length vv = B"
    using len by (simp add: xx_def vv_def)
  have el: "\<forall>b < B. length (xx ! b) = D \<and> length (vv ! b) = D
              \<and> (\<forall>j < D. xx ! b ! j = t ! b ! 0 * y1 ! b ! j + (1 - t ! b ! 0) * y0 ! b ! j
                        \<and> vv ! b ! j = y1 ! b ! j - y0 ! b ! j)"
    using len rows hd0 by (simp add: xx_def vv_def)
  show ?thesis
    using cfg el ln by (intro exI [of _ ?p]) simp
qed

lemma ot_configure:
  "configure spec_env ot_network (Batch [[1], [3]]) None
     = Some \<lparr>tp_x0 = [[1 / 4], [1 / 4]], tp_x1 = [[3], [1]], tp_t = [[1 / 4], [1 / 4]],
             tp_x = [[15 / 16], [7 / 16]], tp_target_velocity = [[11 / 4], [3 / 4]],
             tp_conditions = None, tp_seed = 3\<rparr>"
  by (simp add: configure_def run_defs)

theorem fresh_training_pair_witness:
  "[[1 / 4], [1 / 4]] = random_normal spec_env (shape [[1], [3]]) (seed_generator ot_network)
   \<and> (if use_optimal_transport ot_network
       then optimal_transport spec_env [[1], [3]] [[1 / 4], [1 / 4]] None (seed_generator ot_network + 1)
              (optimal_transport_kwargs ot_network)
       else (([[1], [3]], [[1 / 4], [1 / 4]], None), seed_generator ot_network + 1))
      = (([[3], [1]], [[1 / 4], [1 / 4]], None), 2)
   \<and> [[1 / 4], [1 / 4]]
      = expand_right_as spec_env (random_uniform spec_env (length [[1 / 4], [1 / 4 :: real]]) 2)
          [[1 / 4], [1 / 4]]
   \<and> configure spec_env ot_network (Batch [[1], [3]]) None
      = Some \<lparr>tp_x0 = [[1 / 4], [1 / 4]], tp_x1 = [[3], [1]], tp_t = [[1 / 4], [1 / 4]],
              tp_x = [[15 / 16], [7 / 16]], tp_target_velocity = [[11 / 4], [3 / 4]],
              tp_conditions = None, tp_seed = 3\<rparr>"
proof -
  have h1: "[[1 / 4], [1 / 4]] = random_normal spec_env (shape [[1], [3]]) (seed_generator ot_network)"
    by (simp add: run_defs)
  have h2: "(if use_optimal_transport ot_network
       then optimal_transport spec_env [[1], [3]] [[1 / 4], [1 / 4]] None (seed_generator ot_network + 1)
              (optimal_transport_kwargs ot_network)
       else (([[1], [3]], [[1 / 4], [1 / 4]], None), seed_generator ot_network + 1))
      = (([[3], [1]], [[1 / 4], [1 / 4]], None), 2)"
    by (simp add: run_defs)
  have h3: "[[1 / 4], [1 / 4]]
      = expand_right_as spec_env (random_uniform spec_env (length [[1 / 4], [1 / 4 :: real]]) 2)
          [[1 / 4], [1 / 4]]"
    by (simp add: run_defs)
  have rows: "\<forall>b < 2. length ([[3], [1 :: real]] ! b) = 1 \<and> length ([[1 / 4], [1 / 4 :: real]] ! b) = 1
                \<and> length ([[1 / 4], [1 / 4 :: real]] ! b) = 1"
    by (simp add: less_Suc_eq numeral_2_eq_2)
  have "\<exists>p. configure spec_env ot_network (Batch [[1], [3]]) None = Some p \<and> tp_seed p = 2 + 1"
    using fresh_training_pair [OF h1 h2 h3 _ _ _ rows] by auto
  then show ?thesis
    using h1 h2 h3 ot_configure by simp
qed


subsection \<open>The loss\<close>

lemma map2_nth_upt:
  "length xs = n \<Longrightarrow> length ys = n \<Longrightarrow> map2 f xs ys = map (\<lambda>i. f (xs ! i) (ys ! i)) [0..<n]"
  by (auto intro!: nth_equalityI)

lemma row_mean_squares:
  assumes "length r = D" and "length q = D" and "0 < D"
  shows "mean (map (\<lambda>v. v * v) (map2 (-) r q)) = Some ((\<Sum>j<D. (r ! j - q ! j)\<^sup>2) / real D)"
proof -
  have "map (\<lambda>v. v * v) (map2 (-) r q) = map (\<lambda>j. (r ! j - q ! j)\<^sup>2) [0..<D]"
    using assms(1,2) by (auto intro!: nth_equalityI simp add: power2_eq_square)
  moreover have "sum_list (map (\<lambda>j. (r ! j - q ! j)\<^sup>2) [0..<D]) = (\<Sum>j<D. (r ! j - q ! j)\<^sup>2)"
    by (simp add: interv_sum_list_conv_sum_set_nat atLeast0LessThan)
  ultimately show ?thesis
    using assms(3) by (simp add: mean_def)
qed

lemma mean_squared_error_same_shape:
  assumes "length tv = B" and "length pv = B" and "0 < D"
    and "\<forall>b < B. length (tv ! b) = D \<and> length (pv ! b) = D"
  shows "mean_squared_error tv pv
           = Some (map (\<lambda>b. (\<Sum>j<D. (tv ! b ! j - pv ! b ! j)\<^sup>2) / real D) [0..<B])"
proof -
  have d: "tensor_op (-) tv pv = Some (map (\<lambda>b. map2 (-) (tv ! b) (pv ! b)) [0..<B])"
    using assms tensor_op_same_shape [of tv pv "(-)"] by (simp add: map2_nth_upt)
  have "those (map (\<lambda>b. mean (map (\<lambda>v. v * v) (map2 (-) (tv ! b) (pv ! b)))) [0..<B])
          = Some (map (\<lambda>b. (\<Sum>j<D. (tv ! b ! j - pv ! b ! j)\<^sup>2) / real D) [0..<B])"
    using assms by (intro those_map_eq row_mean_squares) simp_all
  then show ?thesis
    by (simp add: mean_squared_error_def d comp_def)
qed

lemma mean_upt:
  "0 < B \<Longrightarrow> mean (map g [0..<B]) = Some ((\<Sum>b<B. g b) / real B)"
  by (simp add: mean_def interv_sum_list_conv_sum_set_nat atLeast0LessThan)

lemma squares_zero_iff:
  fixes tv pv :: tensor
  assumes "length tv = B" and "length pv = B"
    and "\<forall>b < B. length (tv ! b) = D \<and> length (pv ! b) = D"
  shows "(\<forall>b < B. \<forall>j < D. (tv ! b ! j - pv ! b ! j)\<^sup>2 = 0) \<longleftrightarrow> pv = tv"
proof
  assume z: "\<forall>b < B. \<forall>j < D. (tv ! b ! j - pv ! b ! j)\<^sup>2 = 0"
  show "pv = tv"
  proof (rule nth_equalityI)
    show "length pv = length tv" using assms by simp
  next
    fix b assume "b < length pv"
    then have b: "b < B" using assms by simp
    show "pv ! b = tv ! b"
    proof (rule nth_equalityI)
      show "length (pv ! b) = length (tv ! b)" using assms(3) b by simp
    next
      fix j assume "j < length (pv ! b)"
      then have "j < D" using assms(3) b by simp
      then have "(tv ! b ! j - pv ! b ! j)\<^sup>2 = 0" using z b by blast
      then show "pv ! b ! j = tv ! b ! j" by simp
    qed
  qed
next
  assume "pv = tv"
  then show "\<forall>b < B. \<forall>j < D. (tv ! b ! j - pv ! b ! j)\<^sup>2 = 0" by simp
qed

lemma mean_squares_sign:
  assumes "0 < B" and "0 < D"
  shows "0 \<le> (\<Sum>b<B. (\<Sum>j<D. (f b j)\<^sup>2) / real D) / real B"
    and "(\<Sum>b<B. (\<Sum>j<D. (f b j)\<^sup>2) / real D) / real B = 0 \<longleftrightarrow> (\<forall>b < B. \<forall>j < D. (f b j :: real)\<^sup>2 = 0)"
proof -
  have row: "0 \<le> (\<Sum>j<D. (f b j)\<^sup>2) / real D" for b
    by (simp add: sum_nonneg)
  show "0 \<le> (\<Sum>b<B. (\<Sum>j<D. (f b j)\<^sup>2) / real D) / real B"
    using row by (simp add: sum_nonneg)
  have "(\<Sum>b<B. (\<Sum>j<D. (f b j)\<^sup>2) / real D) / real B = 0
          \<longleftrightarrow> (\<Sum>b<B. (\<Sum>j<D. (f b j)\<^sup>2) / real D) = 0"
    using assms(1) by simp
  also have "\<dots> \<longleftrightarrow> (\<forall>b \<in> {..<B}. (\<Sum>j<D. (f b j)\<^sup>2) / real D = 0)"
    using row by (intro sum_nonneg_eq_0_iff) simp_all
  also have "\<dots> \<longleftrightarrow> (\<forall>b \<in> {..<B}. (\<Sum>j<D. (f b j)\<^sup>2) = 0)"
    using assms(2) by simp
  also have "\<dots> \<longleftrightarrow> (\<forall>b \<in> {..<B}. \<forall>j \<in> {..<D}. (f b j)\<^sup>2 = 0)"
    by (intro ball_cong refl sum_nonneg_eq_0_iff) simp_all
  also have "\<dots> \<longleftrightarrow> (\<forall>b < B. \<forall>j < D. (f b j)\<^sup>2 = 0)"
    by (simp only: Ball_def lessThan_iff)
  finally show "(\<Sum>b<B. (\<Sum>j<D. (f b j)\<^sup>2) / real D) / real B = 0 \<longleftrightarrow> (\<forall>b < B. \<forall>j < D. (f b j)\<^sup>2 = 0)" .
qed

text \<open>
  C6. For a target velocity and a predicted velocity of the same shape (B, D) with
  \<open>B, D > 0\<close>, \<open>compute_metrics\<close> returns the metrics of the base class with the entry
  \<open>"loss"\<close> set to the mean over the batch of the mean over the features of the squared
  differences: one real number, not negative, and zero exactly when the predicted velocity
  equals the target velocity in every entry.
\<close>

theorem loss_is_mean_squared_error:
  assumes "configure e fm inp c = Some p"
    and "velocity (RK2Integrator e) (subnet fm) (output_projector fm) (tp_x p) (tp_t p) (tp_conditions p)
           = Some pv"
    and "0 < B" and "0 < D"
    and "length (tp_target_velocity p) = B" and "length pv = B"
    and "\<forall>b < B. length (tp_target_velocity p ! b) = D \<and> length (pv ! b) = D"
  shows "\<exists>loss.
           fm_compute_metrics e fm inp c stage
             = Some (base_compute_metrics e fm (tp_x1 p) (tp_conditions p) stage ++ [''loss'' \<mapsto> loss],
                     fm\<lparr>seed_generator := tp_seed p\<rparr>)
         \<and> loss = (\<Sum>b<B. (\<Sum>j<D. (tp_target_velocity p ! b ! j - pv ! b ! j)\<^sup>2) / real D) / real B
         \<and> 0 \<le> loss
         \<and> (loss = 0 \<longleftrightarrow> pv = tp_target_velocity p)"
proof -
  let ?tv = "tp_target_velocity p"
  let ?loss = "(\<Sum>b<B. (\<Sum>j<D. (?tv ! b ! j - pv ! b ! j)\<^sup>2) / real D) / real B"
  have m: "mean_squared_error ?tv pv
             = Some (map (\<lambda>b. (\<Sum>j<D. (?tv ! b ! j - pv ! b ! j)\<^sup>2) / real D) [0..<B])"
    using assms by (intro mean_squared_error_same_shape) simp_all
  have cm: "fm_compute_metrics e fm inp c stage
              = Some (base_compute_metrics e fm (tp_x1 p) (tp_conditions p) stage ++ [''loss'' \<mapsto> ?loss],
                      fm\<lparr>seed_generator := tp_seed p\<rparr>)"
    using assms(1,2,3) by (simp add: fm_compute_metrics_def m mean_upt)
  have nn: "0 \<le> ?loss"
    using assms(3,4) by (rule mean_squares_sign(1))
  have "?loss = 0 \<longleftrightarrow> (\<forall>b < B. \<forall>j < D. (?tv ! b ! j - pv ! b ! j)\<^sup>2 = 0)"
    using assms(3,4) by (rule mean_squares_sign(2))
  also have "\<dots> \<longleftrightarrow> pv = ?tv"
    using assms(5,6,7) by (rule squares_zero_iff)
  finally have z: "?loss = 0 \<longleftrightarrow> pv = ?tv" .
  show ?thesis
    using cm nn z by (intro exI [of _ ?loss]) simp
qed

lemma still_configure:
  "configure spec_env still_network (Batch [[1], [3]]) None
     = Some \<lparr>tp_x0 = [[1 / 4], [1 / 4]], tp_x1 = [[1], [3]], tp_t = [[1 / 3], [1 / 3]],
             tp_x = [[1 / 2], [7 / 6]], tp_target_velocity = [[3 / 4], [11 / 4]],
             tp_conditions = None, tp_seed = 2\<rparr>"
  by (simp add: configure_def run_defs)

lemma still_predicted_velocity:
  "velocity (RK2Integrator spec_env) (subnet still_network) (output_projector still_network)
     [[a], [b]] [[s], [t]] None = Some [[0], [0]]"
  by (simp add: spec_env_def still_network_def integrator_spec_def velocity_spec_def
      concatenate_def zero_layer_def)

theorem loss_is_mean_squared_error_witness:
  "configure spec_env still_network (Batch [[1], [3]]) None
     = Some \<lparr>tp_x0 = [[1 / 4], [1 / 4]], tp_x1 = [[1], [3]], tp_t = [[1 / 3], [1 / 3]],
             tp_x = [[1 / 2], [7 / 6]], tp_target_velocity = [[3 / 4], [11 / 4]],
             tp_conditions = None, tp_seed = 2\<rparr>
   \<and> velocity (RK2Integrator spec_env) (subnet still_network) (output_projector still_network)
         [[1 / 2], [7 / 6]] [[1 / 3], [1 / 3]] None = Some [[0], [0]]
   \<and> (\<exists>loss. fm_compute_metrics spec_env still_network (Batch [[1], [3]]) None ''training''
                 = Some (base_compute_metrics spec_env still_network [[1], [3]] None ''training''
                           ++ [''loss'' \<mapsto> loss],
                         still_network\<lparr>seed_generator := 2\<rparr>)
              \<and> loss = 65 / 16 \<and> 0 \<le> loss \<and> loss \<noteq> 0)"
proof -
  let ?p = "\<lparr>tp_x0 = [[1 / 4], [1 / 4]], tp_x1 = [[1], [3]], tp_t = [[1 / 3], [1 / 3]],
             tp_x = [[1 / 2], [7 / 6]], tp_target_velocity = [[3 / 4], [11 / 4 :: real]],
             tp_conditions = None, tp_seed = 2\<rparr>"
  have v: "velocity (RK2Integrator spec_env) (subnet still_network) (output_projector still_network)
             (tp_x ?p) (tp_t ?p) (tp_conditions ?p) = Some [[0], [0]]"
    by (simp add: still_predicted_velocity)
  have rows: "\<forall>b < 2. length (tp_target_velocity ?p ! b) = 1 \<and> length ([[0], [0 :: real]] ! b) = 1"
    by (simp add: less_Suc_eq numeral_2_eq_2)
  have "\<exists>loss. fm_compute_metrics spec_env still_network (Batch [[1], [3]]) None ''training''
                 = Some (base_compute_metrics spec_env still_network [[1], [3]] None ''training''
                           ++ [''loss'' \<mapsto> loss],
                         still_network\<lparr>seed_generator := 2\<rparr>)
              \<and> loss = 65 / 16 \<and> 0 \<le> loss \<and> loss \<noteq> 0"
    using loss_is_mean_squared_error [OF still_configure v _ _ _ _ rows, of "''training''"]
    by (simp add: numeral_2_eq_2 power2_eq_square)
  then show ?thesis
    using still_configure still_predicted_velocity by blast
qed

section \<open>Properties of the equivariant module\<close>

subsection \<open>Row by row\<close>

lemma those_map_iff:
  "those (map f xs) = (if list_all (\<lambda>x. f x \<noteq> None) xs then Some (map (\<lambda>x. the (f x)) xs) else None)"
  by (induction xs) (auto split: option.splits)

lemma those_bind:
  "those (map f xs) \<bind> (\<lambda>ys. those (map g ys)) = those (map (\<lambda>x. f x \<bind> g) xs)"
proof (induction xs)
  case Nil
  show ?case by simp
next
  case (Cons a xs)
  show ?case
  proof (cases "f a")
    case None
    then show ?thesis by simp
  next
    case (Some b)
    show ?thesis
    proof (cases "those (map f xs)")
      case None
      with Cons Some show ?thesis by (simp split: option.splits)
    next
      case (Some ys)
      with Cons \<open>f a = Some b\<close> show ?thesis by (simp split: option.splits)
    qed
  qed
qed

lemma those_bind_zip:
  "those (map f xs) \<bind> (\<lambda>ys. those (map2 h xs ys)) = those (map (\<lambda>x. f x \<bind> h x) xs)"
proof (induction xs)
  case Nil
  show ?case by simp
next
  case (Cons a xs)
  show ?case
  proof (cases "f a")
    case None
    then show ?thesis by simp
  next
    case (Some b)
    show ?thesis
    proof (cases "those (map f xs)")
      case None
      with Cons Some show ?thesis by (simp split: option.splits)
    next
      case (Some ys)
      with Cons \<open>f a = Some b\<close> show ?thesis by (simp split: option.splits)
    qed
  qed
qed

lemma sequential_rows: "sequential ls x = those (map (seq_row ls) x)"
proof (induction ls arbitrary: x)
  case Nil
  show ?case using those_map_Some [of "\<lambda>r. r" x] by simp
next
  case (Cons l ls)
  have "sequential ls = (\<lambda>y. those (map (seq_row ls) y))"
    using Cons by (intro ext)
  then have "sequential (l # ls) x = those (map (dense_row l) x) \<bind> (\<lambda>y. those (map (seq_row ls) y))"
    by (simp add: dense_call_def)
  also have "\<dots> = those (map (\<lambda>r. dense_row l r \<bind> seq_row ls) x)"
    by (rule those_bind)
  finally show ?case by simp
qed

lemma concatenate_summary:
  "concatenate [P, replicate (length P) s] = Some (map (\<lambda>r. r @ s) P)"
  by (auto simp add: concatenate_def intro!: nth_equalityI)

lemma tensor_op_rows:
  "length F = length P \<Longrightarrow> tensor_op f P F = those (map2 (vec_op f) P F)"
  by (simp add: tensor_op_def broadcast_def)

lemma call_set_rows:
  "call_set m training S =
     do { P \<leftarrow> those (map (dense_row (input_projection m)) S);
          s \<leftarrow> invariant_module m training P;
          those (map (row_out m s) P) }"
proof -
  have inner: "sequential (equivariant_fc m) (map (\<lambda>r. r @ s) P) \<bind>
                 (\<lambda>fc_out. tensor_op (+) P fc_out \<bind>
                    (\<lambda>output_set. case ln_layer m of None \<Rightarrow> Some output_set
                                   | Some l \<Rightarrow> layer_norm_call l output_set))
               = those (map (row_out m s) P)" for P s
  proof -
    let ?g = "\<lambda>r. seq_row (equivariant_fc m) (r @ s)"
    let ?k = "\<lambda>output_set. case ln_layer m of None \<Rightarrow> Some output_set
                            | Some l \<Rightarrow> layer_norm_call l output_set"
    have "sequential (equivariant_fc m) (map (\<lambda>r. r @ s) P) \<bind> (\<lambda>F. tensor_op (+) P F \<bind> ?k)
            = those (map ?g P) \<bind> (\<lambda>F. those (map2 (vec_op (+)) P F) \<bind> ?k)"
    proof (rule Option.bind_cong)
      show "sequential (equivariant_fc m) (map (\<lambda>r. r @ s) P) = those (map ?g P)"
        by (simp add: sequential_rows comp_def)
    next
      fix F assume "those (map ?g P) = Some F"
      then have "length F = length (map ?g P)" by (rule those_length)
      then have "length F = length P" by simp
      then show "tensor_op (+) P F \<bind> ?k = those (map2 (vec_op (+)) P F) \<bind> ?k"
        by (simp add: tensor_op_rows)
    qed
    also have "\<dots> = (those (map ?g P) \<bind> (\<lambda>F. those (map2 (vec_op (+)) P F))) \<bind> ?k"
      by simp
    also have "\<dots> = those (map (\<lambda>r. ?g r \<bind> vec_op (+) r) P) \<bind> ?k"
      by (simp only: those_bind_zip)
    also have "\<dots> = those (map (row_out m s) P)"
    proof (cases "ln_layer m")
      case None
      then show ?thesis by (simp add: row_out_def cong: map_cong)
    next
      case (Some l)
      then show ?thesis
        using those_bind [of "\<lambda>r. ?g r \<bind> vec_op (+) r" P "layer_norm_row l"]
        by (simp add: row_out_def layer_norm_call_def cong: map_cong)
    qed
    finally show ?thesis .
  qed
  show ?thesis
    by (simp add: call_set_def dense_call_def concatenate_summary inner)
qed

subsection \<open>Permutations of the set axis\<close>

lemma perm_set: "mset p = mset [0..<n] \<Longrightarrow> set p = {0..<n}"
proof -
  assume "mset p = mset [0..<n]"
  then have "set p = set [0..<n]" by (rule mset_eq_setD)
  then show ?thesis by simp
qed

lemma permute_set:
  assumes "mset p = mset [0..<length xs]"
  shows "set (permute p xs) = set xs"
proof -
  have "set (permute p xs) = (\<lambda>i. xs ! i) ` {0..<length xs}"
    using perm_set [OF assms] by (simp add: permute_def)
  also have "\<dots> = set xs"
    by (simp add: nth_image)
  finally show ?thesis .
qed

lemma permute_mset:
  assumes "mset p = mset [0..<length xs]"
  shows "mset (permute p xs) = mset xs"
proof -
  have "mset (permute p xs) = image_mset (\<lambda>i. xs ! i) (mset p)"
    by (simp add: permute_def)
  also have "\<dots> = mset (map (\<lambda>i. xs ! i) [0..<length xs])"
    by (simp add: assms)
  also have "\<dots> = mset xs"
    by (simp add: map_nth)
  finally show ?thesis .
qed

lemma permute_map:
  assumes "mset p = mset [0..<length xs]"
  shows "map g (permute p xs) = permute p (map g xs)"
proof -
  have "\<forall>i \<in> set p. i < length xs"
    using perm_set [OF assms] by simp
  then show ?thesis
    by (simp add: permute_def)
qed

lemma those_map_permute:
  assumes "mset p = mset [0..<length xs]"
  shows "those (map f (permute p xs)) = map_option (permute p) (those (map f xs))"
  using permute_set [OF assms] permute_map [OF assms, of "\<lambda>x. the (f x)"]
  by (simp add: those_map_iff list_all_iff)

lemma call_set_equivariant:
  assumes p: "mset p = mset [0..<length S]"
    and inv: "permutation_invariant (invariant_module m training)"
  shows "call_set m training (permute p S) = map_option (permute p) (call_set m training S)"
proof (cases "those (map (dense_row (input_projection m)) S)")
  case None
  show ?thesis
    unfolding call_set_rows those_map_permute [OF p] None by simp
next
  case (Some P)
  have len: "length P = length S"
    using those_length [OF Some] by simp
  have pP: "mset p = mset [0..<length P]"
    unfolding len by (rule p)
  have "mset (permute p P) = mset P"
    using pP by (rule permute_mset)
  then have s: "invariant_module m training (permute p P) = invariant_module m training P"
    using inv unfolding permutation_invariant_def by blast
  show ?thesis
  proof (cases "invariant_module m training P")
    case None
    show ?thesis
      unfolding call_set_rows those_map_permute [OF p] Some by (simp add: s None)
  next
    case summary: (Some sm)
    show ?thesis
      unfolding call_set_rows those_map_permute [OF p] Some
      by (simp add: s summary those_map_permute [OF pP])
  qed
qed

lemma those_map_map_option:
  "those (map (\<lambda>x. map_option g (f x)) xs) = map_option (map g) (those (map f xs))"
proof (induction xs)
  case Nil
  show ?case by simp
next
  case (Cons a xs)
  show ?case
  proof (cases "f a")
    case None
    then show ?thesis by simp
  next
    case (Some b)
    then show ?thesis
      using Cons by (cases "those (map f xs)") simp_all
  qed
qed


subsection \<open>The invariant module of the spec is permutation invariant\<close>

lemma reduce_mset: "mset a = mset b \<Longrightarrow> reduce p a = reduce p b"
proof -
  assume e: "mset a = mset b"
  have "sum_list a = sum_list b"
    using e by (metis sum_mset_sum_list)
  moreover have "length a = length b"
    using e by (rule mset_eq_length)
  moreover have "set a = set b"
    using e by (rule mset_eq_setD)
  ultimately show ?thesis
    by (simp add: reduce_def split: pooling.splits)
qed

lemma pool_mset:
  assumes e: "mset xs = mset ys"
  shows "pool p xs = pool p ys"
proof (cases "xs = []")
  case True
  then have "ys = []" using e by simp
  with True show ?thesis by simp
next
  case False
  then have ny: "ys \<noteq> []" using e by auto
  have st: "set xs = set ys" using e by (rule mset_eq_setD)
  have hx: "hd xs \<in> set ys" using hd_in_set [OF False] st by blast
  have hy: "hd ys \<in> set xs" using hd_in_set [OF ny] st by blast
  show ?thesis
  proof (cases "list_all (\<lambda>q. length q = length (hd xs)) xs")
    case True
    then have w: "length (hd ys) = length (hd xs)"
      using hy by (simp add: list_all_iff)
    then have ay: "list_all (\<lambda>q. length q = length (hd ys)) ys"
      using True st by (simp add: list_all_iff)
    have "reduce p (map (\<lambda>q. q ! j) xs) = reduce p (map (\<lambda>q. q ! j) ys)" for j
      using e by (intro reduce_mset) simp
    then show ?thesis
      using True ay w False ny by (simp add: pool_def)
  next
    case nx: False
    have "\<not> list_all (\<lambda>q. length q = length (hd ys)) ys"
    proof
      assume a: "list_all (\<lambda>q. length q = length (hd ys)) ys"
      then have "length (hd xs) = length (hd ys)"
        using hx by (simp add: list_all_iff)
      then have "list_all (\<lambda>q. length q = length (hd xs)) xs"
        using a st by (simp add: list_all_iff)
      with nx show False by simp
    qed
    then show ?thesis
      using nx by (simp add: pool_def)
  qed
qed

lemma those_map_mset:
  assumes "mset xs = mset ys"
  shows "(those (map f xs) = None \<longleftrightarrow> those (map f ys) = None)
       \<and> (\<forall>a b. those (map f xs) = Some a \<and> those (map f ys) = Some b \<longrightarrow> mset a = mset b)"
proof -
  have st: "set xs = set ys" using assms by (rule mset_eq_setD)
  have "mset (map (\<lambda>x. the (f x)) xs) = mset (map (\<lambda>x. the (f x)) ys)"
    using assms by simp
  then show ?thesis
    using st by (auto simp add: those_map_iff list_all_iff split: if_splits)
qed

lemma invariant_call_invariant: "permutation_invariant (invariant_call im training)"
  unfolding permutation_invariant_def
proof (intro allI impI)
  fix xs ys :: tensor
  assume e: "mset xs = mset ys"
  note m = those_map_mset [OF e, of "seq_row (inner_fc im)"]
  show "invariant_call im training xs = invariant_call im training ys"
  proof (cases "those (map (seq_row (inner_fc im)) xs)")
    case None
    then have "those (map (seq_row (inner_fc im)) ys) = None" using m by simp
    with None show ?thesis by (simp add: invariant_call_def sequential_rows)
  next
    case (Some a)
    then obtain b where b: "those (map (seq_row (inner_fc im)) ys) = Some b"
      using m by (cases "those (map (seq_row (inner_fc im)) ys)") auto
    then have "mset a = mset b" using m Some by blast
    then have "pool (pooling_layer im) a = pool (pooling_layer im) b"
      by (rule pool_mset)
    then show ?thesis
      using Some b by (simp add: invariant_call_def sequential_rows)
  qed
qed

subsection \<open>Shapes\<close>

lemma those_map_shape:
  assumes "\<forall>x \<in> set xs. \<exists>y. f x = Some y \<and> Q y"
  shows "\<exists>ys. those (map f xs) = Some ys \<and> length ys = length xs \<and> (\<forall>y \<in> set ys. Q y)"
proof -
  have a: "list_all (\<lambda>x. f x \<noteq> None) xs"
    using assms by (auto simp add: list_all_iff)
  have "\<forall>y \<in> set (map (\<lambda>x. the (f x)) xs). Q y"
    using assms by fastforce
  then show ?thesis
    using a by (simp add: those_map_iff)
qed

lemma dense_row_shape:
  "dense_shape l n u \<Longrightarrow> length x = n \<Longrightarrow> \<exists>y. dense_row l x = Some y \<and> length y = u"
  by (simp add: dense_shape_def dense_row_def)

lemma seq_row_shape:
  "list_all (\<lambda>k. dense_shape k u u) ls \<Longrightarrow> length x = u \<Longrightarrow> \<exists>y. seq_row ls x = Some y \<and> length y = u"
proof (induction ls arbitrary: x)
  case Nil
  then show ?case by simp
next
  case (Cons l ls)
  then obtain y where y: "dense_row l x = Some y" "length y = u"
    using dense_row_shape [of l u u x] by auto
  then show ?case
    using Cons by simp
qed

lemma row_out_shape:
  assumes b: "built m D U R" and r: "length r = U" and s: "length s = R"
  shows "\<exists>out. row_out m s r = Some out \<and> length out = U"
proof -
  from b obtain l ls where fc: "equivariant_fc m = l # ls"
    and l: "dense_shape l (U + R) U" and ls: "list_all (\<lambda>k. dense_shape k U U) ls"
    by (auto simp add: built_def split: list.splits)
  obtain y where y: "dense_row l (r @ s) = Some y" "length y = U"
    using dense_row_shape [OF l, of "r @ s"] r s by auto
  obtain f where f: "seq_row ls y = Some f" "length f = U"
    using seq_row_shape [OF ls y(2)] by auto
  have v: "vec_op (+) r f = Some (map2 (+) r f)"
    using r f(2) by (simp add: vec_op_same_length)
  have lv: "length (map2 (+) r f) = U"
    using r f(2) by simp
  show ?thesis
  proof (cases "ln_layer m")
    case None
    then show ?thesis
      using fc y f v lv by (simp add: row_out_def)
  next
    case (Some n)
    then have "length (gamma n) = U \<and> length (beta n) = U"
      using b by (simp add: built_def)
    then have "\<exists>out. layer_norm_row n (map2 (+) r f) = Some out \<and> length out = U"
      using lv by (simp add: layer_norm_row_def Let_def)
    then show ?thesis
      using Some fc y f v by (simp add: row_out_def)
  qed
qed

lemma call_set_shape:
  assumes b: "built m D U R" and ne: "S \<noteq> []" and w: "\<forall>r \<in> set S. length r = D"
  shows "\<exists>out. call_set m training S = Some out \<and> length out = length S \<and> (\<forall>r \<in> set out. length r = U)"
proof -
  have ip: "dense_shape (input_projection m) D U"
    using b by (simp add: built_def)
  have "\<forall>r \<in> set S. \<exists>y. dense_row (input_projection m) r = Some y \<and> length y = U"
    using w dense_row_shape [OF ip] by simp
  then obtain P where P: "those (map (dense_row (input_projection m)) S) = Some P"
    "length P = length S" "\<forall>r \<in> set P. length r = U"
    using those_map_shape [of S "dense_row (input_projection m)" "\<lambda>y. length y = U"] by auto
  have "P \<noteq> [] \<and> list_all (\<lambda>r. length r = U) P"
    using P ne by (auto simp add: list_all_iff)
  then obtain s where s: "invariant_module m training P = Some s" "length s = R"
    using b unfolding built_def by blast
  have "\<forall>r \<in> set P. \<exists>out. row_out m s r = Some out \<and> length out = U"
    using row_out_shape [OF b _ s(2)] P(3) by simp
  then obtain out where "those (map (row_out m s) P) = Some out"
    "length out = length P" "\<forall>r \<in> set out. length r = U"
    using those_map_shape [of P "row_out m s" "\<lambda>y. length y = U"] by auto
  then show ?thesis
    using P s by (simp add: call_set_rows)
qed


subsection \<open>The concrete module\<close>

lemma small_invariant_summary:
  assumes "P \<noteq> []" and "list_all (\<lambda>r. length r = 2) P"
  shows "\<exists>s. invariant_call small_invariant training P = Some s \<and> length s = 1"
proof -
  let ?inner = "\<lparr>kernel = [[1], [1]], bias = [0], activation = (\<lambda>v. v)\<rparr>"
  let ?outer = "\<lparr>kernel = [[2]], bias = [1], activation = (\<lambda>v. v)\<rparr>"
  have "\<forall>r \<in> set P. \<exists>y. seq_row [?inner] r = Some y \<and> length y = 1"
    using assms(2) by (simp add: list_all_iff dense_row_def)
  then obtain h where h: "those (map (seq_row [?inner]) P) = Some h" "length h = length P"
    "\<forall>y \<in> set h. length y = 1"
    using those_map_shape [of P "seq_row [?inner]" "\<lambda>y. length y = 1"] by auto
  have hne: "h \<noteq> []" using h(2) assms(1) by auto
  then have "length (hd h) = 1" using h(3) by simp
  then have "\<exists>q. pool Mean h = Some q \<and> length q = 1"
    using hne h(3) by (simp add: pool_def list_all_iff)
  then obtain q where q: "pool Mean h = Some q" "length q = 1" by auto
  then obtain a where a: "q = [a]" by (cases q) auto
  have "sequential [?outer] [q] = Some [[2 * a + 1]]"
    by (simp add: a dense_call_def dense_row_def)
  then show ?thesis
    using h(1) q(1) by (simp add: invariant_call_def small_invariant_def sequential_rows)
qed

lemma small_module_built: "built small_module 3 2 1"
  using small_invariant_summary
  by (simp add: built_def small_module_def dense_shape_def)

lemma perm_201: "mset [2, 0, 1] = mset [0..<3::nat]"
  by (simp add: upt_rec add_mset_commute)

lemma small_module_call:
  "equivariant_call small_module False [[[1, 2, 3], [0, 1, 0], [2, 0, 1]]]
     = Some [[[55 / 3, 64 / 3], [31 / 3, 40 / 3], [49 / 3, 40 / 3]]]"
  by (simp add: equivariant_call_def call_set_def small_module_def small_invariant_def
      invariant_call_def dense_call_def dense_row_def concatenate_def tensor_op_def vec_op_def
      broadcast_def pool_def reduce_def upt_rec)


subsection \<open>Equivariance\<close>

text \<open>
  C4. For a batch of sets with \<open>N \<ge> 1\<close> elements each and a permutation of the set axis,
  calling the module on the permuted sets gives the permuted result of calling it on the
  sets (and fails where that fails), over real entries: the summary of the permuted set is
  the summary of the set, since the invariant module is permutation invariant (as the one
  of the spec is, for mean and max pooling), and every other step, the normalisation
  included, treats each element on its own.
\<close>

theorem permutation_equivariance:
  assumes "1 \<le> N" and "\<forall>S \<in> set batch. length S = N"
    and "mset p = mset [0..<N]"
    and "permutation_invariant (invariant_module m training)"
  shows "equivariant_call m training (map (permute p) batch)
           = map_option (map (permute p)) (equivariant_call m training batch)"
proof -
  have "map (call_set m training) (map (permute p) batch)
          = map (\<lambda>S. map_option (permute p) (call_set m training S)) batch"
    using assms by (simp add: call_set_equivariant)
  then have "equivariant_call m training (map (permute p) batch)
          = those (map (\<lambda>S. map_option (permute p) (call_set m training S)) batch)"
    by (simp only: equivariant_call_def)
  also have "\<dots> = map_option (map (permute p)) (those (map (call_set m training) batch))"
    by (rule those_map_map_option)
  finally show ?thesis
    by (simp only: equivariant_call_def)
qed

theorem permutation_equivariance_witness:
  "(1 :: nat) \<le> 3
   \<and> length [[1, 2, 3], [0, 1, 0], [2, 0, 1 :: real]] = 3
   \<and> mset [2, 0, 1] = mset [0..<3::nat]
   \<and> permutation_invariant (invariant_module small_module False)
   \<and> equivariant_call small_module False (map (permute [2, 0, 1]) [[[1, 2, 3], [0, 1, 0], [2, 0, 1]]])
       = map_option (map (permute [2, 0, 1]))
           (equivariant_call small_module False [[[1, 2, 3], [0, 1, 0], [2, 0, 1]]])
   \<and> equivariant_call small_module False [[[2, 0, 1], [1, 2, 3], [0, 1, 0]]]
       = Some [[[49 / 3, 40 / 3], [55 / 3, 64 / 3], [31 / 3, 40 / 3]]]"
proof -
  have i: "permutation_invariant (invariant_module small_module False)"
    by (simp add: small_module_def invariant_call_invariant)
  have l: "\<forall>S \<in> set [[[1, 2, 3], [0, 1, 0], [2, 0, 1 :: real]]]. length S = 3"
    by simp
  have e: "equivariant_call small_module False (map (permute [2, 0, 1]) [[[1, 2, 3], [0, 1, 0], [2, 0, 1]]])
       = map_option (map (permute [2, 0, 1]))
           (equivariant_call small_module False [[[1, 2, 3], [0, 1, 0], [2, 0, 1]]])"
    using permutation_equivariance [OF _ l perm_201 i] by simp
  show ?thesis
    using e i perm_201 by (simp add: small_module_call permute_def)
qed

subsection \<open>Output shape\<close>

text \<open>
  C10. For a module built for inputs of feature width \<open>D\<close>, whatever \<open>D\<close> is, a batch of
  sets of \<open>N \<ge> 1\<close> rows of width \<open>D\<close> is mapped to sets of \<open>N\<close> rows of width
  \<open>units_equivariant\<close>: the residual sum is taken with the projected input, so \<open>D\<close> and
  \<open>units_equivariant\<close> need not agree.
\<close>

theorem output_shape:
  assumes "built m D U R" and "1 \<le> N"
    and "\<forall>S \<in> set batch. length S = N \<and> (\<forall>r \<in> set S. length r = D)"
  shows "\<exists>out. equivariant_call m training batch = Some out \<and> length out = length batch
           \<and> (\<forall>S \<in> set out. length S = N \<and> (\<forall>r \<in> set S. length r = U))"
proof -
  have "\<forall>S \<in> set batch. \<exists>out. call_set m training S = Some out
          \<and> (length out = N \<and> (\<forall>r \<in> set out. length r = U))"
  proof
    fix S assume S: "S \<in> set batch"
    then have "S \<noteq> []" and "\<forall>r \<in> set S. length r = D" and "length S = N"
      using assms(2,3) by auto
    then show "\<exists>out. call_set m training S = Some out
          \<and> (length out = N \<and> (\<forall>r \<in> set out. length r = U))"
      using call_set_shape [OF assms(1), of S training] by auto
  qed
  then show ?thesis
    unfolding equivariant_call_def by (rule those_map_shape)
qed

theorem output_shape_witness:
  "built small_module 3 2 1
   \<and> (1 :: nat) \<le> 3
   \<and> length [[1, 2, 3], [0, 1, 0], [2, 0, 1 :: real]] = 3
   \<and> list_all (\<lambda>r. length r = 3) [[1, 2, 3], [0, 1, 0], [2, 0, 1 :: real]]
   \<and> (\<exists>out. equivariant_call small_module False [[[1, 2, 3], [0, 1, 0], [2, 0, 1]]] = Some out
          \<and> length out = 1
          \<and> list_all (\<lambda>S. length S = 3 \<and> list_all (\<lambda>r. length r = 2) S) out)"
proof -
  have w: "\<forall>S \<in> set [[[1, 2, 3], [0, 1, 0], [2, 0, 1 :: real]]]. length S = 3 \<and> (\<forall>r \<in> set S. length r = 3)"
    by simp
  have "\<exists>out. equivariant_call small_module False [[[1, 2, 3], [0, 1, 0], [2, 0, 1]]] = Some out
          \<and> length out = length [[[1, 2, 3], [0, 1, 0], [2, 0, 1 :: real]]]
          \<and> (\<forall>S \<in> set out. length S = 3 \<and> (\<forall>r \<in> set S. length r = 2))"
    using output_shape [OF small_module_built _ w, of False] by simp
  then show ?thesis
    using small_module_built by (simp add: list_all_iff)
qed

end
